theory Spec2Isabelle
  imports Complex_Main
begin

section \<open>Student performance analysis: the data and its environment\<close>

text \<open>
  The program \<^verbatim>\<open>student_analysis.py\<close> keeps three values, a list of subject names, a list
  of student names and a numpy array of marks, reads and writes them as one JSON document
  in the file \<^verbatim>\<open>students_data.json\<close>, and talks to a console and to a chart renderer.
  Everything the functions do besides returning is explicit here: they take the
  \<open>world\<close> (the file and the storage it lies on, console input, console output,
  renderer calls) and return the new one together with either the raised exception
  (\<open>Inl\<close>) or the returned value (\<open>Inr\<close>).
\<close>

subsection \<open>Exceptions\<close>

datatype error =
    FileNotFoundError
  | JSONDecodeError
  | UnicodeDecodeError
  | KeyError string
  | TypeError
  | ValueError
  | IndexError
  | AxisError
  | OSError
  | EOFError

subsection \<open>numpy arrays\<close>

text \<open>
  An array is its shape and its elements in row-major order, as numpy stores it. The
  elements are mathematical integers: numpy's fixed-width element types are not modelled,
  so the model is numpy's behaviour for integers that fit 64 bits (marks lie in 0..100;
  larger values, which numpy would store as floats or objects, are outside it).
  \<open>wf_array\<close> is the library's own invariant (as many elements as the shape says).
\<close>

record 'a ndarray =
  shape :: "nat list"
  data :: "'a list"

definition wf_array :: "'a ndarray \<Rightarrow> bool" where
  "wf_array a = (length (data a) = prod_list (shape a))"

definition np_size :: "'a ndarray \<Rightarrow> nat" where
  \<comment> \<open>\<^verbatim>\<open>marks.size\<close>: the total number of elements.\<close>
  "np_size a = prod_list (shape a)"

text \<open>A Python or JSON value made of integers and lists: what \<^verbatim>\<open>tolist\<close> returns.\<close>

datatype nested = Num int | Arr "nested list"

fun unflatten :: "nat list \<Rightarrow> int list \<Rightarrow> nested" where
  "unflatten [] xs = Num (hd xs)"
| "unflatten (d # ds) xs =
     Arr (map (\<lambda>i. unflatten ds (take (prod_list ds) (drop (i * prod_list ds) xs))) [0..<d])"

definition tolist :: "int ndarray \<Rightarrow> nested" where
  \<comment> \<open>\<^verbatim>\<open>marks.tolist()\<close>\<close>
  "tolist a = unflatten (shape a) (data a)"

fun dims :: "nested \<Rightarrow> nat list option" where
  \<comment> \<open>the shape numpy discovers in a nested list; \<open>None\<close> when the list is inhomogeneous\<close>
  "dims (Num n) = Some []"
| "dims (Arr []) = Some [0]"
| "dims (Arr (y # ys)) =
     (case dims y of
        None \<Rightarrow> None
      | Some s \<Rightarrow> if list_all (\<lambda>z. dims z = Some s) ys then Some (Suc (length ys) # s) else None)"

fun leaves :: "nested \<Rightarrow> int list" where
  "leaves (Num n) = [n]"
| "leaves (Arr ys) = concat (map leaves ys)"

definition np_array :: "nested \<Rightarrow> error + int ndarray" where
  \<comment> \<open>\<^verbatim>\<open>np.array(x)\<close> for integers that fit 64 bits; an inhomogeneous list raises
      ValueError (numpy 1.24 and later)\<close>
  "np_array x =
     (case dims x of
        None \<Rightarrow> Inl ValueError
      | Some s \<Rightarrow> Inr \<lparr>shape = s, data = leaves x\<rparr>)"

definition atleast_2d :: "'a ndarray \<Rightarrow> 'a ndarray" where
  "atleast_2d a =
     (case shape a of
        [] \<Rightarrow> a\<lparr>shape := [1, 1]\<rparr>
      | [n] \<Rightarrow> a\<lparr>shape := [1, n]\<rparr>
      | _ \<Rightarrow> a)"

definition vstack :: "int ndarray \<Rightarrow> int list \<Rightarrow> error + int ndarray" where
  \<comment> \<open>\<^verbatim>\<open>np.vstack((marks, new_marks))\<close>: both arguments are made at least two-dimensional
      and joined along the first axis; the other axes must agree, or ValueError is raised\<close>
  "vstack a new_marks =
     (let a2 = atleast_2d a;
          b2 = atleast_2d \<lparr>shape = [length new_marks], data = new_marks\<rparr>
      in if length (shape a2) = length (shape b2) \<and> tl (shape a2) = tl (shape b2)
         then Inr \<lparr>shape = (hd (shape a2) + hd (shape b2)) # tl (shape a2),
                   data = data a2 @ data b2\<rparr>
         else Inl ValueError)"

text \<open>
  A mean is a real number, or numpy's \<^verbatim>\<open>nan\<close> when there is nothing to average. The
  rounding of the quotient to a 64-bit float is not modelled.
\<close>

datatype np_float = NaN | Float real

definition mean :: "int list \<Rightarrow> np_float" where
  "mean xs = (if xs = [] then NaN else Float (real_of_int (sum_list xs) / real (length xs)))"

definition np_mean :: "int ndarray \<Rightarrow> np_float" where
  \<comment> \<open>\<^verbatim>\<open>np.mean(a)\<close>: over all the elements\<close>
  "np_mean a = mean (data a)"

definition np_mean_axis0 :: "int ndarray \<Rightarrow> error + np_float ndarray" where
  \<comment> \<open>\<^verbatim>\<open>np.mean(a, axis=0)\<close>: element \<open>j\<close> of the result averages the elements \<open>j\<close> of the
      sub-arrays along the first axis; an array with no axis raises AxisError\<close>
  "np_mean_axis0 a =
     (case shape a of
        [] \<Rightarrow> Inl AxisError
      | d # ds \<Rightarrow>
          Inr \<lparr>shape = ds,
               data = map (\<lambda>j. mean (map (\<lambda>i. data a ! (i * prod_list ds + j)) [0..<d]))
                          [0..<prod_list ds]\<rparr>)"

definition iter_array :: "'a ndarray \<Rightarrow> error + 'a ndarray list" where
  \<comment> \<open>iterating over an array yields its sub-arrays along the first axis; an array with no
      axis cannot be iterated (TypeError)\<close>
  "iter_array a =
     (case shape a of
        [] \<Rightarrow> Inl TypeError
      | d # ds \<Rightarrow>
          Inr (map (\<lambda>i. \<lparr>shape = ds, data = take (prod_list ds) (drop (i * prod_list ds) (data a))\<rparr>)
                   [0..<d]))"

definition column :: "'a ndarray \<Rightarrow> nat \<Rightarrow> error + 'a ndarray" where
  \<comment> \<open>\<^verbatim>\<open>marks[:, j]\<close>: IndexError with fewer than two axes or with \<open>j\<close> out of bounds\<close>
  "column a j =
     (case shape a of
        d # c # ds \<Rightarrow>
          if j < c
          then Inr \<lparr>shape = d # ds,
                    data = concat (map (\<lambda>i. take (prod_list ds)
                                               (drop ((i * c + j) * prod_list ds) (data a)))
                                       [0..<d])\<rparr>
          else Inl IndexError
      | _ \<Rightarrow> Inl IndexError)"

subsection \<open>The persisted file, the console and the chart renderer\<close>

text \<open>
  A JSON value is an object or something else (\<open>NotObject\<close>). Of an object only the three
  keys the program reads matter; each may be missing, and a present one holds a value of
  the type the program annotates: a list of strings, or integers nested in lists.
\<close>

record document =
  doc_subjects :: "string list option"
  doc_students :: "string list option"
  doc_marks :: "nested option"

datatype json = NotObject | Object document

text \<open>
  The file \<^verbatim>\<open>students_data.json\<close> is absent, or present but refused by \<^verbatim>\<open>open\<close> (no
  permission, a directory), or present with bytes that are not text in the console's
  encoding, or it holds a text. A text is the sequence of the pieces written into it:
  the text of one JSON value (\<^verbatim>\<open>json.dump\<close> followed by \<^verbatim>\<open>json.load\<close> is the identity on
  the values above, so a piece is the value itself), or something that is not JSON.
  \<^verbatim>\<open>json.load\<close> accepts a text that is exactly one JSON value; the empty text, a text
  with anything that is not JSON, and two values one after the other are not JSON.
\<close>

datatype piece = Junk | Json json

datatype file_state = Absent | Unreadable | Undecodable | Text "piece list"

text \<open>
  The storage either takes a write, or refuses to open the file for writing, or opens
  it and fails while the text is written (a full disk).
\<close>

datatype storage = Writable | OpenRefused | WriteFails

text \<open>
  What the program writes to the console: a printed line, the prompt of an \<^verbatim>\<open>input\<close>
  call, or one row of the results table. The row is kept as its ingredients (the padded
  name, the marks and the average), since the program prints them through a fixed-point
  float format that is not modelled.
\<close>

datatype out =
    Line string
  | Prompt string
  | ResultRow string "int list" np_float

text \<open>
  The calls made to the chart renderer (matplotlib), in order, with the data they carry.
  The renderer is a collaborator: a call is recorded, and what the renderer does with its
  arguments (drawing, or rejecting them) is outside the model.
\<close>

datatype chart =
    Figure
  | Plot "nat list" "int ndarray" string
  | Bar "string list" "np_float ndarray"
  | BarText np_float
  | Title string
  | XLabel string
  | YLabel string
  | YLim
  | Legend
  | XTicks "nat list" "string list"
  | Grid
  | TightLayout
  | Show

record world =
  data_file :: file_state
  storage :: storage
  stdin :: "string list"
  stdout :: "out list"
  charts :: "chart list"

subsection \<open>Console helpers\<close>

definition HEADER :: string where "HEADER = CHR 0x1B # ''[95m''"
definition BLUE :: string where "BLUE = CHR 0x1B # ''[94m''"
definition GREEN :: string where "GREEN = CHR 0x1B # ''[92m''"
definition YELLOW :: string where "YELLOW = CHR 0x1B # ''[93m''"
definition RED :: string where "RED = CHR 0x1B # ''[91m''"
definition ENDC :: string where "ENDC = CHR 0x1B # ''[0m''"
definition BOLD :: string where "BOLD = CHR 0x1B # ''[1m''"

definition print :: "string \<Rightarrow> world \<Rightarrow> world" where
  "print text w = w\<lparr>stdout := stdout w @ [Line text]\<rparr>"

definition print_colored :: "string \<Rightarrow> string \<Rightarrow> world \<Rightarrow> world" where
  "print_colored text color w = print (color @ text @ ENDC) w"

definition input :: "string \<Rightarrow> world \<Rightarrow> (error + string) \<times> world" where
  \<comment> \<open>\<^verbatim>\<open>input(prompt)\<close>: writes the prompt and returns the next line; EOFError at the end
      of the input\<close>
  "input prompt w =
     (let w1 = w\<lparr>stdout := stdout w @ [Prompt prompt]\<rparr>
      in case stdin w of
           [] \<Rightarrow> (Inl EOFError, w1)
         | l # ls \<Rightarrow> (Inr l, w1\<lparr>stdin := ls\<rparr>))"

definition plt :: "chart list \<Rightarrow> world \<Rightarrow> world" where
  "plt cs w = w\<lparr>charts := charts w @ cs\<rparr>"

section \<open>Dataset store\<close>

definition json_load :: "file_state \<Rightarrow> error + json" where
  \<comment> \<open>\<^verbatim>\<open>open('students_data.json', 'r')\<close> and \<^verbatim>\<open>json.load(file)\<close>\<close>
  "json_load f =
     (case f of
        Absent \<Rightarrow> Inl FileNotFoundError
      | Unreadable \<Rightarrow> Inl OSError
      | Undecodable \<Rightarrow> Inl UnicodeDecodeError
      | Text ps \<Rightarrow> (case ps of [Json v] \<Rightarrow> Inr v | _ \<Rightarrow> Inl JSONDecodeError))"

definition open_write :: "world \<Rightarrow> (error + unit) \<times> world" where
  \<comment> \<open>\<^verbatim>\<open>open('students_data.json', 'w')\<close>: an OSError when the storage refuses, and
      otherwise the file exists and is empty\<close>
  "open_write w =
     (if storage w = OpenRefused then (Inl OSError, w)
      else (Inr (), w\<lparr>data_file := Text []\<rparr>))"

definition json_dump :: "json \<Rightarrow> world \<Rightarrow> (error + unit) \<times> world" where
  \<comment> \<open>\<^verbatim>\<open>json.dump(value, file)\<close> up to the close of the file: the text of the value is added
      at the end of the open file, or the write fails with an OSError\<close>
  "json_dump v w =
     (if storage w = WriteFails then (Inl OSError, w)
      else (Inr (),
            w\<lparr>data_file := (case data_file w of
                               Text ps \<Rightarrow> Text (ps @ [Json v])
                             | _ \<Rightarrow> Text [Json v])\<rparr>))"

definition save_data :: "string list \<Rightarrow> string list \<Rightarrow> int ndarray \<Rightarrow> world \<Rightarrow> (error + unit) \<times> world" where
  "save_data subjects students marks w =
     (case open_write w of
        (Inl e, w1) \<Rightarrow> (Inl e, w1)
      | (Inr _, w1) \<Rightarrow>
          (case json_dump (Object \<lparr>doc_subjects = Some subjects,
                                    doc_students = Some students,
                                    doc_marks = Some (tolist marks)\<rparr>) w1 of
             (Inl e, w2) \<Rightarrow> (Inl e, w2)
           | (Inr _, w2) \<Rightarrow> (Inr (), print_colored ''Data saved successfully.'' GREEN w2)))"

definition default_subjects :: "string list" where
  "default_subjects = [''English'', ''Maths'', ''Science'', ''Social'', ''History'']"

definition initialize_default :: "world \<Rightarrow> (error + string list \<times> string list \<times> int ndarray) \<times> world" where
  \<comment> \<open>the \<^verbatim>\<open>except (FileNotFoundError, json.JSONDecodeError)\<close> branch\<close>
  "initialize_default w =
     (let w1 = print_colored ''No existing data found. Initializing with default subjects.'' YELLOW w;
          subjects = default_subjects;
          students = []
      in case np_array (Arr []) of
           Inl e \<Rightarrow> (Inl e, w1)
         | Inr marks \<Rightarrow>
             (case save_data subjects students marks w1 of
                (Inl e, w2) \<Rightarrow> (Inl e, w2)
              | (Inr _, w2) \<Rightarrow> (Inr (subjects, students, marks), w2)))"

definition initialize_data :: "world \<Rightarrow> (error + string list \<times> string list \<times> int ndarray) \<times> world" where
  \<comment> \<open>of the exceptions raised inside \<^verbatim>\<open>try\<close>, only FileNotFoundError and JSONDecodeError
      are caught\<close>
  "initialize_data w =
     (case json_load (data_file w) of
        Inl e \<Rightarrow>
          if e = FileNotFoundError \<or> e = JSONDecodeError then initialize_default w
          else (Inl e, w)
      | Inr NotObject \<Rightarrow> (Inl TypeError, w)
      | Inr (Object d) \<Rightarrow>
          (case doc_subjects d of
             None \<Rightarrow> (Inl (KeyError ''subjects''), w)
           | Some subjects \<Rightarrow>
               (case doc_students d of
                  None \<Rightarrow> (Inl (KeyError ''students''), w)
                | Some students \<Rightarrow>
                    (case doc_marks d of
                       None \<Rightarrow> (Inl (KeyError ''marks''), w)
                     | Some m \<Rightarrow>
                         (case np_array m of
                            Inl e \<Rightarrow> (Inl e, w)
                          | Inr marks \<Rightarrow>
                              (Inr (subjects, students, marks),
                               print_colored ''Data loaded successfully.'' GREEN w))))))"

section \<open>Record builder\<close>

text \<open>
  \<^verbatim>\<open>int(...)\<close> is Python's own conversion, not part of the program: the functions that
  read a mark take it as the parameter \<open>int_of\<close>, which returns \<open>None\<close> where \<^verbatim>\<open>int\<close>
  raises ValueError. The inner \<^verbatim>\<open>while True\<close> loop reads one line per round, so it is a
  recursion on the remaining input.
\<close>

function read_mark :: "(string \<Rightarrow> int option) \<Rightarrow> string \<Rightarrow> world \<Rightarrow> (error + int) \<times> world" where
  "read_mark int_of subject w =
     (case input (''Enter mark for '' @ subject @ '' (0-100): '') w of
        (Inl e, w1) \<Rightarrow> (Inl e, w1)
      | (Inr l, w1) \<Rightarrow>
          (case int_of l of
             None \<Rightarrow> read_mark int_of subject (print_colored ''Please enter a valid integer.'' RED w1)
           | Some mark \<Rightarrow>
               if 0 \<le> mark \<and> mark \<le> 100 then (Inr mark, w1)
               else read_mark int_of subject
                      (print_colored ''Mark should be between 0 and 100.'' RED w1)))"
  by pat_completeness auto
termination
  by (relation "measure (\<lambda>(int_of, subject, w). length (stdin w))")
     (auto simp: input_def print_colored_def print_def Let_def split: list.splits)

declare read_mark.simps [simp del]

fun read_marks :: "(string \<Rightarrow> int option) \<Rightarrow> string list \<Rightarrow> int list \<Rightarrow> world \<Rightarrow> (error + int list) \<times> world" where
  \<comment> \<open>the \<^verbatim>\<open>for subject in subjects\<close> loop, with \<^verbatim>\<open>new_marks\<close> as accumulator\<close>
  "read_marks int_of [] new_marks w = (Inr new_marks, w)"
| "read_marks int_of (subject # rest) new_marks w =
     (case read_mark int_of subject w of
        (Inl e, w1) \<Rightarrow> (Inl e, w1)
      | (Inr mark, w1) \<Rightarrow> read_marks int_of rest (new_marks @ [mark]) w1)"

definition append_row :: "int ndarray \<Rightarrow> int list \<Rightarrow> error + int ndarray" where
  \<comment> \<open>\<^verbatim>\<open>np.vstack((marks, new_marks)) if marks.size else np.array([new_marks])\<close>\<close>
  "append_row marks new_marks =
     (if np_size marks \<noteq> 0 then vstack marks new_marks
      else np_array (Arr [Arr (map Num new_marks)]))"

definition add_record :: "(string \<Rightarrow> int option) \<Rightarrow> string list \<Rightarrow> string list \<Rightarrow> int ndarray \<Rightarrow> world
    \<Rightarrow> (error + string list \<times> int ndarray) \<times> world" where
  "add_record int_of subjects students marks w =
     (let w0 = print_colored (CHR 0x0A # ''Adding a new student record'') HEADER w
      in case input ''Enter student name: '' w0 of
           (Inl e, w1) \<Rightarrow> (Inl e, w1)
         | (Inr student_name, w1) \<Rightarrow>
             (case read_marks int_of subjects [] w1 of
                (Inl e, w2) \<Rightarrow> (Inl e, w2)
              | (Inr new_marks, w2) \<Rightarrow>
                  (let students' = students @ [student_name]
                   in case append_row marks new_marks of
                        Inl e \<Rightarrow> (Inl e, w2)
                      | Inr marks' \<Rightarrow>
                          (case save_data subjects students' marks' w2 of
                             (Inl e, w3) \<Rightarrow> (Inl e, w3)
                           | (Inr _, w3) \<Rightarrow>
                               (Inr (students', marks'),
                                print_colored ''Record added successfully.'' GREEN w3)))))"

section \<open>Statistics and presentation\<close>

definition ljust :: "nat \<Rightarrow> string \<Rightarrow> string" where
  "ljust n s = s @ replicate (n - length s) CHR '' ''"

fun join :: "string \<Rightarrow> string list \<Rightarrow> string" where
  "join sep [] = []"
| "join sep [x] = x"
| "join sep (x # y # ys) = x @ sep @ join sep (y # ys)"

definition row_marks :: "int ndarray \<Rightarrow> error + int list" where
  \<comment> \<open>the marks of one row as \<^verbatim>\<open>f"{mark:8.2f}" for mark in student_marks\<close> sees them: a
      number cannot be iterated, and an array is not accepted by the float format\<close>
  "row_marks r =
     (case shape r of
        [] \<Rightarrow> Inl TypeError
      | [k] \<Rightarrow> Inr (data r)
      | k # _ # _ \<Rightarrow> if k = 0 then Inr [] else Inl TypeError)"

fun display_rows :: "(string \<times> int ndarray) list \<Rightarrow> world \<Rightarrow> (error + unit) \<times> world" where
  \<comment> \<open>the \<^verbatim>\<open>for student, student_marks in zip(students, marks)\<close> loop\<close>
  "display_rows [] w = (Inr (), w)"
| "display_rows ((student, student_marks) # rest) w =
     (let avg = np_mean student_marks
      in case row_marks student_marks of
           Inl e \<Rightarrow> (Inl e, w)
         | Inr ms \<Rightarrow>
             display_rows rest (w\<lparr>stdout := stdout w @ [ResultRow (ljust 20 student) ms avg]\<rparr>))"

definition display_results :: "string list \<Rightarrow> string list \<Rightarrow> int ndarray \<Rightarrow> world \<Rightarrow> (error + unit) \<times> world" where
  "display_results subjects students marks w =
     (if students = [] then (Inr (), print_colored ''No data available.'' YELLOW w)
      else
        (let w1 = print_colored (CHR 0x0A # ''Student Results:'') HEADER w;
             header = ljust 20 ''Student Name'' @ '' | '' @ join '' | '' (map (ljust 8) subjects)
                      @ '' | Average'';
             w2 = print_colored header BOLD w1;
             w3 = print_colored (replicate (length header) CHR ''-'') BOLD w2
         in case iter_array marks of
              Inl e \<Rightarrow> (Inl e, w3)
            | Inr rows \<Rightarrow> display_rows (zip students rows) w3))"

fun plot_subjects :: "nat \<Rightarrow> string list \<Rightarrow> nat list \<Rightarrow> int ndarray \<Rightarrow> world \<Rightarrow> (error + unit) \<times> world" where
  \<comment> \<open>the \<^verbatim>\<open>for subject_index, subject in enumerate(subjects)\<close> loop\<close>
  "plot_subjects subject_index [] years marks w = (Inr (), w)"
| "plot_subjects subject_index (subject # rest) years marks w =
     (case (if np_size marks \<noteq> 0 then column marks subject_index
            else Inr \<lparr>shape = [0], data = []\<rparr>) of
        Inl e \<Rightarrow> (Inl e, w)
      | Inr subject_marks \<Rightarrow>
          plot_subjects (Suc subject_index) rest years marks
            (plt [Plot years subject_marks subject] w))"

definition analyze_trend :: "string list \<Rightarrow> string list \<Rightarrow> int ndarray \<Rightarrow> world \<Rightarrow> (error + unit) \<times> world" where
  "analyze_trend subjects students marks w =
     (if length students < 2
      then (Inr (), print_colored ''Not enough data to analyze trends.'' YELLOW w)
      else
        (let w1 = plt [Figure] w;
             years = [0..<length students]
         in case plot_subjects 0 subjects years marks w1 of
              (Inl e, w2) \<Rightarrow> (Inl e, w2)
            | (Inr _, w2) \<Rightarrow>
                (Inr (),
                 plt [Title ''Trend of Marks by Subject'', XLabel ''Student Index'',
                      YLabel ''Marks'', Legend, XTicks years students, Grid, TightLayout, Show]
                   w2)))"

definition subject_comparison :: "string list \<Rightarrow> string list \<Rightarrow> int ndarray \<Rightarrow> world \<Rightarrow> (error + unit) \<times> world" where
  "subject_comparison subjects students marks w =
     (if np_size marks = 0
      then (Inr (), print_colored ''No data available for comparison.'' YELLOW w)
      else
        (case np_mean_axis0 marks of
           Inl e \<Rightarrow> (Inl e, w)
         | Inr subject_averages \<Rightarrow>
             (Inr (),
              plt ([Figure, Bar subjects subject_averages,
                    Title ''Average Performance by Subject'', XLabel ''Subjects'',
                    YLabel ''Average Marks'', YLim]
                   @ map BarText (data subject_averages)
                   @ [Grid, TightLayout, Show]) w)))"

section \<open>The menu loop\<close>

text \<open>
  One round of the \<^verbatim>\<open>while True\<close> loop of \<^verbatim>\<open>main\<close>: it returns the student list and the
  marks for the next round, or \<open>None\<close> after choice 5 (\<^verbatim>\<open>break\<close>).
\<close>

definition menu_round :: "(string \<Rightarrow> int option) \<Rightarrow> string list \<Rightarrow> string list \<Rightarrow> int ndarray \<Rightarrow> world
    \<Rightarrow> (error + (string list \<times> int ndarray) option) \<times> world" where
  "menu_round int_of subjects students marks w =
     (let w0 = print ''5. Exit''
                (print ''4. Subject comparison''
                  (print ''3. Analyze trend''
                    (print ''2. Display results''
                      (print ''1. Add new student record''
                        (print_colored (CHR 0x0A # ''--- Student Performance Analysis ---'')
                           HEADER w)))))
      in case input ''Enter your choice (1-5): '' w0 of
           (Inl e, w1) \<Rightarrow> (Inl e, w1)
         | (Inr choice, w1) \<Rightarrow>
             if choice = ''1'' then
               (case add_record int_of subjects students marks w1 of
                  (Inl e, w2) \<Rightarrow> (Inl e, w2)
                | (Inr (students', marks'), w2) \<Rightarrow> (Inr (Some (students', marks')), w2))
             else if choice = ''2'' then
               (case display_results subjects students marks w1 of
                  (Inl e, w2) \<Rightarrow> (Inl e, w2)
                | (Inr _, w2) \<Rightarrow> (Inr (Some (students, marks)), w2))
             else if choice = ''3'' then
               (case analyze_trend subjects students marks w1 of
                  (Inl e, w2) \<Rightarrow> (Inl e, w2)
                | (Inr _, w2) \<Rightarrow> (Inr (Some (students, marks)), w2))
             else if choice = ''4'' then
               (case subject_comparison subjects students marks w1 of
                  (Inl e, w2) \<Rightarrow> (Inl e, w2)
                | (Inr _, w2) \<Rightarrow> (Inr (Some (students, marks)), w2))
             else if choice = ''5'' then
               (Inr None,
                print_colored
                  ''Thank you for using the Student Performance Analysis Program. Goodbye!''
                  BOLD w1)
             else
               (Inr (Some (students, marks)),
                print_colored ''Invalid choice. Please try again.'' RED w1))"

section \<open>Vocabulary of the properties\<close>

text \<open>
  The rows of a table are what iterating over the array yields, as lists (no rows for an
  array that cannot be iterated).
\<close>

definition table_rows :: "int ndarray \<Rightarrow> int list list" where
  "table_rows a = (case iter_array a of Inl e \<Rightarrow> [] | Inr rs \<Rightarrow> map data rs)"

definition in_range :: "int \<Rightarrow> bool" where
  "in_range m = (0 \<le> m \<and> m \<le> 100)"

text \<open>
  The marks table as the program represents it: the one-dimensional empty array of
  \<^verbatim>\<open>np.array([])\<close> when there is no student, and otherwise a two-dimensional array with
  one row per student and one column per subject.
\<close>

definition table_inv :: "string list \<Rightarrow> string list \<Rightarrow> int ndarray \<Rightarrow> bool" where
  "table_inv subjects students marks =
     (wf_array marks \<and>
      shape marks = (if students = [] then [0] else [length students, length subjects]))"

definition valid_triple :: "string list \<Rightarrow> string list \<Rightarrow> int ndarray \<Rightarrow> bool" where
  "valid_triple subjects students marks =
     (table_inv subjects students marks \<and> list_all in_range (data marks))"

text \<open>A shape none of whose axes but the last is empty.\<close>

fun inner_nonzero :: "nat list \<Rightarrow> bool" where
  "inner_nonzero [] = True"
| "inner_nonzero [d] = True"
| "inner_nonzero (d # ds) = (d \<noteq> 0 \<and> inner_nonzero ds)"

text \<open>
  The states of one run of \<^verbatim>\<open>main\<close> started in the world \<open>w0\<close>: the state that
  \<^verbatim>\<open>initialize_data\<close> returns, and the state after each round of the menu that returns.
  (The two lines that \<^verbatim>\<open>main\<close> prints around the load change neither the state nor the
  file, and are left out.)
\<close>

inductive reaches :: "(string \<Rightarrow> int option) \<Rightarrow> world \<Rightarrow> string list \<Rightarrow> string list \<Rightarrow> int ndarray \<Rightarrow> world \<Rightarrow> bool"
  for int_of :: "string \<Rightarrow> int option" and w0 :: world where
  start:
    "initialize_data w0 = (Inr (subjects, students, marks), w) \<Longrightarrow>
     reaches int_of w0 subjects students marks w"
| round:
    "reaches int_of w0 subjects students marks w \<Longrightarrow>
     menu_round int_of subjects students marks w = (Inr (Some (students', marks')), w') \<Longrightarrow>
     reaches int_of w0 subjects students' marks' w'"

code_pred reaches .

text \<open>
  A file the program itself may have left: none, a text that is not JSON (what a failed
  write leaves), or the document of a valid triple over the default subjects.
\<close>

definition own_file :: "file_state \<Rightarrow> bool" where
  "own_file f =
     (case json_load f of
        Inl e \<Rightarrow> e = FileNotFoundError \<or> e = JSONDecodeError
      | Inr NotObject \<Rightarrow> False
      | Inr (Object d) \<Rightarrow>
          (case (doc_subjects d, doc_students d, doc_marks d) of
             (Some subjects, Some students, Some m) \<Rightarrow>
               subjects = default_subjects \<and>
               (case np_array m of
                  Inl e \<Rightarrow> False
                | Inr marks \<Rightarrow> valid_triple subjects students marks)
           | _ \<Rightarrow> False))"

text \<open>
  An instance of \<open>int_of\<close> for worked examples: the unsigned decimal numerals, on which it
  agrees with Python's \<^verbatim>\<open>int\<close>.
\<close>

definition digit_of :: "char \<Rightarrow> nat option" where
  "digit_of c = (let n = (of_char c :: nat) in if 48 \<le> n \<and> n \<le> 57 then Some (n - 48) else None)"

fun digits_value :: "nat \<Rightarrow> string \<Rightarrow> nat option" where
  "digits_value acc [] = Some acc"
| "digits_value acc (c # cs) =
     (case digit_of c of None \<Rightarrow> None | Some d \<Rightarrow> digits_value (10 * acc + d) cs)"

definition decimal :: "string \<Rightarrow> int option" where
  "decimal s = (if s = [] then None else map_option int (digits_value 0 s))"

text \<open>A first start: no file, writable storage, nothing typed yet.\<close>

definition fresh_world :: world where
  "fresh_world = \<lparr>data_file = Absent, storage = Writable, stdin = [], stdout = [], charts = []\<rparr>"

section \<open>Arrays and nested lists\<close>

lemma concat_chunks_take:
  "d * p \<le> length xs \<Longrightarrow> concat (map (\<lambda>i. take p (drop (i * p) xs)) [0..<d]) = take (d * p) xs"
proof (induction d)
  case 0
  then show ?case by simp
next
  case (Suc d)
  then have "concat (map (\<lambda>i. take p (drop (i * p) xs)) [0..<d]) = take (d * p) xs" by simp
  moreover have "take (d * p + p) xs = take (d * p) xs @ take p (drop (d * p) xs)"
    by (rule take_add)
  moreover have "Suc d * p = d * p + p" by simp
  ultimately show ?case by (simp del: mult_Suc)
qed

lemma concat_chunks:
  "length xs = d * p \<Longrightarrow> concat (map (\<lambda>i. take p (drop (i * p) xs)) [0..<d]) = xs"
  by (simp add: concat_chunks_take)

lemma length_chunk:
  "length xs = d * p \<Longrightarrow> i < d \<Longrightarrow> length (take p (drop (i * p) xs)) = p"
proof -
  assume a: "length xs = d * p" "i < d"
  then have "Suc i * p \<le> d * p" by (intro mult_le_mono1) simp
  then show ?thesis using a by simp
qed

lemma dims_Arr:
  "ys \<noteq> [] \<Longrightarrow> (\<And>y. y \<in> set ys \<Longrightarrow> dims y = Some s) \<Longrightarrow> dims (Arr ys) = Some (length ys # s)"
  by (cases ys) (auto simp: list_all_iff)

lemma unflatten_roundtrip:
  "length xs = prod_list s \<Longrightarrow> inner_nonzero s \<Longrightarrow>
   dims (unflatten s xs) = Some s \<and> leaves (unflatten s xs) = xs"
proof (induction s arbitrary: xs)
  case Nil
  then obtain x where "xs = [x]" by (cases xs) auto
  then show ?case by simp
next
  case (Cons d ds)
  let ?p = "prod_list ds"
  let ?chunk = "\<lambda>i. take ?p (drop (i * ?p) xs)"
  from Cons.prems have len: "length xs = d * ?p" by simp
  from Cons.prems have inner: "inner_nonzero ds" by (cases ds) auto
  have ih: "dims (unflatten ds (?chunk i)) = Some ds \<and> leaves (unflatten ds (?chunk i)) = ?chunk i"
    if "i < d" for i
    using Cons.IH [OF length_chunk [OF len that] inner] .
  have lv: "leaves (unflatten (d # ds) xs) = xs"
  proof -
    have "leaves (unflatten (d # ds) xs)
            = concat (map (\<lambda>i. leaves (unflatten ds (?chunk i))) [0..<d])"
      by (simp add: comp_def)
    also have "\<dots> = concat (map ?chunk [0..<d])"
    proof -
      have "map (\<lambda>i. leaves (unflatten ds (?chunk i))) [0..<d] = map ?chunk [0..<d]"
        by (rule map_cong) (use ih in auto)
      then show ?thesis by (rule arg_cong)
    qed
    also have "\<dots> = xs"
      by (rule concat_chunks [OF len])
    finally show ?thesis .
  qed
  have dm: "dims (unflatten (d # ds) xs) = Some (d # ds)"
  proof (cases "d = 0")
    case True
    with Cons.prems have "ds = []" by (cases ds) auto
    with True show ?thesis by simp
  next
    case False
    let ?ys = "map (\<lambda>i. unflatten ds (?chunk i)) [0..<d]"
    from False have "?ys \<noteq> []" by simp
    moreover have "dims y = Some ds" if "y \<in> set ?ys" for y
      using that ih by auto
    ultimately have "dims (Arr ?ys) = Some (length ?ys # ds)"
      by (rule dims_Arr)
    then show ?thesis by simp
  qed
  from dm lv show ?case by simp
qed

lemma np_array_tolist:
  "wf_array a \<Longrightarrow> inner_nonzero (shape a) \<Longrightarrow> np_array (tolist a) = Inr a"
  using unflatten_roundtrip [of "data a" "shape a"]
  by (simp add: np_array_def tolist_def wf_array_def)

lemma table_inv_inner: "table_inv subjects students marks \<Longrightarrow> inner_nonzero (shape marks)"
  by (auto simp: table_inv_def)

section \<open>Dataset store: saving and loading\<close>

lemma print_colored_frame [simp]:
  "data_file (print_colored t c w) = data_file w"
  "storage (print_colored t c w) = storage w"
  "charts (print_colored t c w) = charts w"
  "stdin (print_colored t c w) = stdin w"
  "stdout (print_colored t c w) = stdout w @ [Line (c @ t @ ENDC)]"
  by (simp_all add: print_colored_def print_def)

lemma save_data_eq:
  "save_data subjects students marks w =
     (case storage w of
        Writable \<Rightarrow>
          (Inr (),
           print_colored ''Data saved successfully.'' GREEN
             (w\<lparr>data_file := Text [Json (Object \<lparr>doc_subjects = Some subjects,
                                                    doc_students = Some students,
                                                    doc_marks = Some (tolist marks)\<rparr>)]\<rparr>))
      | OpenRefused \<Rightarrow> (Inl OSError, w)
      | WriteFails \<Rightarrow> (Inl OSError, w\<lparr>data_file := Text []\<rparr>))"
  by (simp add: save_data_def open_write_def json_dump_def split: storage.splits)

lemma np_array_empty: "np_array (Arr []) = Inr \<lparr>shape = [0], data = []\<rparr>"
  by (simp add: np_array_def)

lemma tolist_empty: "shape a = [0] \<Longrightarrow> tolist a = Arr []"
  by (simp add: tolist_def)

lemma table_rows_2d:
  "shape a = [R, C] \<Longrightarrow> table_rows a = map (\<lambda>i. take C (drop (i * C) (data a))) [0..<R]"
  by (simp add: table_rows_def iter_array_def comp_def)

lemma table_rows_empty: "shape a = [0] \<Longrightarrow> table_rows a = []"
  by (simp add: table_rows_def iter_array_def)

lemma unflatten_row: "unflatten [length ys] ys = Arr (map Num ys)"
proof -
  have "map (\<lambda>i. unflatten [] (take 1 (drop i ys))) [0..<length ys] = map Num ys"
  proof (rule nth_equalityI)
    show "length (map (\<lambda>i. unflatten [] (take 1 (drop i ys))) [0..<length ys]) = length (map Num ys)"
      by simp
  next
    fix i assume "i < length (map (\<lambda>i. unflatten [] (take 1 (drop i ys))) [0..<length ys])"
    then have i: "i < length ys" by simp
    then have "hd (take 1 (drop i ys)) = ys ! i"
      by (simp add: hd_drop_conv_nth)
    with i show "map (\<lambda>i. unflatten [] (take 1 (drop i ys))) [0..<length ys] ! i = map Num ys ! i"
      by simp
  qed
  then show ?thesis by simp
qed

lemma tolist_rows:
  assumes "wf_array a" "shape a = [R, C]"
  shows "tolist a = Arr (map (\<lambda>r. Arr (map Num r)) (table_rows a))"
proof -
  from assms have len: "length (data a) = R * C" by (simp add: wf_array_def)
  have "map (\<lambda>i. unflatten [C] (take C (drop (i * C) (data a)))) [0..<R]
        = map (\<lambda>i. Arr (map Num (take C (drop (i * C) (data a))))) [0..<R]"
  proof (rule map_cong)
    fix i assume "i \<in> set [0..<R]"
    then have "i < R" by simp
    with len have "length (take C (drop (i * C) (data a))) = C" by (rule length_chunk)
    with unflatten_row [of "take C (drop (i * C) (data a))"]
    show "unflatten [C] (take C (drop (i * C) (data a)))
          = Arr (map Num (take C (drop (i * C) (data a))))"
      by simp
  qed simp
  with assms(2) show ?thesis
    by (simp add: tolist_def table_rows_2d comp_def)
qed

lemma initialize_default_eq:
  "initialize_default w =
     (case save_data default_subjects [] \<lparr>shape = [0], data = []\<rparr>
             (print_colored ''No existing data found. Initializing with default subjects.''
                YELLOW w) of
        (Inl e, w2) \<Rightarrow> (Inl e, w2)
      | (Inr u, w2) \<Rightarrow> (Inr (default_subjects, [], \<lparr>shape = [0], data = []\<rparr>), w2))"
  by (simp add: initialize_default_def np_array_empty Let_def)

lemma load_after_save:
  assumes "wf_array marks" "inner_nonzero (shape marks)" "storage w = Writable"
  shows "initialize_data (snd (save_data subjects students marks w))
         = (Inr (subjects, students, marks),
            print_colored ''Data loaded successfully.'' GREEN
              (snd (save_data subjects students marks w)))"
  using assms
  by (simp add: initialize_data_def save_data_eq json_load_def np_array_tolist)

text \<open>
  C1. A valid triple (the marks table in the program's representation, one row per student
  and one column per subject, every mark between 0 and 100) that is saved to writable
  storage and loaded again comes back unchanged: \<^verbatim>\<open>save_data\<close> returns normally and
  \<^verbatim>\<open>initialize_data\<close> then returns the same subjects, students and marks.
\<close>

theorem save_load_roundtrip:
  assumes "valid_triple subjects students marks" and "storage w = Writable"
  shows "fst (save_data subjects students marks w) = Inr () \<and>
         fst (initialize_data (snd (save_data subjects students marks w)))
           = Inr (subjects, students, marks)"
proof -
  from assms(1) have "wf_array marks" "inner_nonzero (shape marks)"
    by (auto simp: valid_triple_def table_inv_def)
  from load_after_save [OF this assms(2)] assms(2) show ?thesis
    by (simp add: save_data_eq)
qed

theorem save_load_roundtrip_witness:
  "valid_triple [''English'', ''Maths''] [''Alice'', ''Bob'']
     \<lparr>shape = [2, 2], data = [70, 80, 100, 0]\<rparr> \<and>
   storage fresh_world = Writable \<and>
   fst (save_data [''English'', ''Maths''] [''Alice'', ''Bob'']
          \<lparr>shape = [2, 2], data = [70, 80, 100, 0]\<rparr> fresh_world) = Inr () \<and>
   fst (initialize_data (snd (save_data [''English'', ''Maths''] [''Alice'', ''Bob'']
          \<lparr>shape = [2, 2], data = [70, 80, 100, 0]\<rparr> fresh_world)))
     = Inr ([''English'', ''Maths''], [''Alice'', ''Bob''],
            \<lparr>shape = [2, 2], data = [70, 80, 100, 0]\<rparr>)"
proof -
  have v: "valid_triple [''English'', ''Maths''] [''Alice'', ''Bob'']
             \<lparr>shape = [2, 2], data = [70, 80, 100, 0]\<rparr>"
    by (simp add: valid_triple_def table_inv_def wf_array_def in_range_def)
  have w: "storage fresh_world = Writable"
    by (simp add: fresh_world_def)
  from save_load_roundtrip [OF v w] v w show ?thesis by blast
qed

lemma load_default_writable:
  assumes "json_load (data_file w) = Inl FileNotFoundError \<or>
           json_load (data_file w) = Inl JSONDecodeError"
    and "storage w = Writable"
  shows "initialize_data w =
           (Inr ([''English'', ''Maths'', ''Science'', ''Social'', ''History''], [],
                 \<lparr>shape = [0], data = []\<rparr>),
            w\<lparr>data_file :=
                 Text [Json (Object
                   \<lparr>doc_subjects = Some [''English'', ''Maths'', ''Science'', ''Social'', ''History''],
                    doc_students = Some [], doc_marks = Some (Arr [])\<rparr>)],
               stdout := stdout w @
                 [Line (YELLOW @ ''No existing data found. Initializing with default subjects.''
                        @ ENDC),
                  Line (GREEN @ ''Data saved successfully.'' @ ENDC)]\<rparr>)"
  using assms
  by (auto simp: initialize_data_def initialize_default_eq save_data_eq tolist_def
        default_subjects_def print_colored_def print_def)

lemma load_default_refused:
  assumes "json_load (data_file w) = Inl FileNotFoundError \<or>
           json_load (data_file w) = Inl JSONDecodeError"
    and "storage w \<noteq> Writable"
  shows "fst (initialize_data w) = Inl OSError \<and>
         data_file (snd (initialize_data w)) =
           (if storage w = OpenRefused then data_file w else Text [])"
  using assms
  by (cases "storage w")
     (auto simp: initialize_data_def initialize_default_eq save_data_eq)

lemma json_load_not_json:
  "(\<forall>v. ps \<noteq> [Json v]) \<Longrightarrow> json_load (Text ps) = Inl JSONDecodeError"
  by (auto simp: json_load_def split: list.splits piece.splits)

text \<open>
  C3, as the code has it. When the file is absent or its text is not JSON,
  \<^verbatim>\<open>initialize_data\<close> falls back to the five default subjects, no students and the
  empty marks table and saves that state; it returns them when the
  storage takes the write, and otherwise the OSError of \<^verbatim>\<open>save_data\<close> reaches the caller.
  No other state of the file is recovered: a file that cannot be opened raises OSError,
  one that cannot be decoded raises UnicodeDecodeError, a JSON value that is not an
  object raises TypeError, an object without one of the three keys raises KeyError for
  the first key missing, and marks that are not a homogeneous nested list raise
  ValueError; in each of these cases nothing is saved.
\<close>

theorem load_fallback:
  "(data_file w = Absent \<or> (\<exists>ps. data_file w = Text ps \<and> (\<forall>v. ps \<noteq> [Json v])) \<longrightarrow>
      (storage w = Writable \<longrightarrow>
         fst (initialize_data w) =
           Inr ([''English'', ''Maths'', ''Science'', ''Social'', ''History''], [],
                \<lparr>shape = [0], data = []\<rparr>) \<and>
         data_file (snd (initialize_data w)) =
           Text [Json (Object
             \<lparr>doc_subjects = Some [''English'', ''Maths'', ''Science'', ''Social'', ''History''],
              doc_students = Some [], doc_marks = Some (Arr [])\<rparr>)]) \<and>
      (storage w \<noteq> Writable \<longrightarrow> fst (initialize_data w) = Inl OSError)) \<and>
   (data_file w = Unreadable \<longrightarrow> initialize_data w = (Inl OSError, w)) \<and>
   (data_file w = Undecodable \<longrightarrow> initialize_data w = (Inl UnicodeDecodeError, w)) \<and>
   (data_file w = Text [Json NotObject] \<longrightarrow> initialize_data w = (Inl TypeError, w)) \<and>
   (data_file w = Text [Json (Object d)] \<and> doc_subjects d = None \<longrightarrow>
      initialize_data w = (Inl (KeyError ''subjects''), w)) \<and>
   (data_file w = Text [Json (Object d)] \<and> doc_subjects d \<noteq> None \<and> doc_students d = None \<longrightarrow>
      initialize_data w = (Inl (KeyError ''students''), w)) \<and>
   (data_file w = Text [Json (Object d)] \<and> doc_subjects d \<noteq> None \<and> doc_students d \<noteq> None \<and>
    doc_marks d = None \<longrightarrow>
      initialize_data w = (Inl (KeyError ''marks''), w)) \<and>
   (data_file w = Text [Json (Object d)] \<and> doc_subjects d \<noteq> None \<and> doc_students d \<noteq> None \<and>
    doc_marks d = Some m \<and> dims m = None \<longrightarrow>
      initialize_data w = (Inl ValueError, w))"
proof -
  have fallback: "json_load (data_file w) = Inl FileNotFoundError \<or>
                  json_load (data_file w) = Inl JSONDecodeError"
    if "data_file w = Absent \<or> (\<exists>ps. data_file w = Text ps \<and> (\<forall>v. ps \<noteq> [Json v]))"
    using that by (auto simp: json_load_not_json) (simp add: json_load_def)
  have a: "storage w = Writable \<longrightarrow>
         fst (initialize_data w) =
           Inr ([''English'', ''Maths'', ''Science'', ''Social'', ''History''], [],
                \<lparr>shape = [0], data = []\<rparr>) \<and>
         data_file (snd (initialize_data w)) =
           Text [Json (Object
             \<lparr>doc_subjects = Some [''English'', ''Maths'', ''Science'', ''Social'', ''History''],
              doc_students = Some [], doc_marks = Some (Arr [])\<rparr>)]"
    if "data_file w = Absent \<or> (\<exists>ps. data_file w = Text ps \<and> (\<forall>v. ps \<noteq> [Json v]))"
    using load_default_writable [OF fallback [OF that]] by simp
  have b: "storage w \<noteq> Writable \<longrightarrow> fst (initialize_data w) = Inl OSError"
    if "data_file w = Absent \<or> (\<exists>ps. data_file w = Text ps \<and> (\<forall>v. ps \<noteq> [Json v]))"
    using load_default_refused [OF fallback [OF that]] by simp
  have c: "data_file w = Unreadable \<longrightarrow> initialize_data w = (Inl OSError, w)"
    by (simp add: initialize_data_def json_load_def)
  have d: "data_file w = Undecodable \<longrightarrow> initialize_data w = (Inl UnicodeDecodeError, w)"
    by (simp add: initialize_data_def json_load_def)
  have e: "data_file w = Text [Json NotObject] \<longrightarrow> initialize_data w = (Inl TypeError, w)"
    by (simp add: initialize_data_def json_load_def)
  have f: "data_file w = Text [Json (Object d)] \<and> doc_subjects d = None \<longrightarrow>
      initialize_data w = (Inl (KeyError ''subjects''), w)"
    by (simp add: initialize_data_def json_load_def)
  have g: "data_file w = Text [Json (Object d)] \<and> doc_subjects d \<noteq> None \<and> doc_students d = None \<longrightarrow>
      initialize_data w = (Inl (KeyError ''students''), w)"
    by (auto simp: initialize_data_def json_load_def)
  have h: "data_file w = Text [Json (Object d)] \<and> doc_subjects d \<noteq> None \<and> doc_students d \<noteq> None \<and>
    doc_marks d = None \<longrightarrow> initialize_data w = (Inl (KeyError ''marks''), w)"
    by (auto simp: initialize_data_def json_load_def)
  have i: "data_file w = Text [Json (Object d)] \<and> doc_subjects d \<noteq> None \<and> doc_students d \<noteq> None \<and>
    doc_marks d = Some m \<and> dims m = None \<longrightarrow> initialize_data w = (Inl ValueError, w)"
    by (auto simp: initialize_data_def json_load_def np_array_def)
  from a b c d e f g h i show ?thesis by blast
qed

theorem load_fallback_witness:
  "fst (initialize_data (fresh_world\<lparr>data_file := Text []\<rparr>)) =
     Inr ([''English'', ''Maths'', ''Science'', ''Social'', ''History''], [],
          \<lparr>shape = [0], data = []\<rparr>) \<and>
   data_file (snd (initialize_data (fresh_world\<lparr>data_file := Text []\<rparr>))) =
     Text [Json (Object
       \<lparr>doc_subjects = Some [''English'', ''Maths'', ''Science'', ''Social'', ''History''],
        doc_students = Some [], doc_marks = Some (Arr [])\<rparr>)] \<and>
   fst (initialize_data (fresh_world\<lparr>data_file := Text [Json NotObject]\<rparr>)) = Inl TypeError \<and>
   fst (initialize_data
          (fresh_world\<lparr>data_file := Text [Json (Object \<lparr>doc_subjects = Some [''Maths''],
                                                           doc_students = None,
                                                           doc_marks = None\<rparr>)]\<rparr>))
     = Inl (KeyError ''students'')"
proof -
  let ?w1 = "fresh_world\<lparr>data_file := Text []\<rparr>"
  let ?w2 = "fresh_world\<lparr>data_file := Text [Json NotObject]\<rparr>"
  let ?d = "\<lparr>doc_subjects = Some [''Maths''], doc_students = None, doc_marks = None\<rparr>"
  let ?w3 = "fresh_world\<lparr>data_file := Text [Json (Object ?d)]\<rparr>"
  have h1: "data_file ?w1 = Absent \<or> (\<exists>ps. data_file ?w1 = Text ps \<and> (\<forall>v. ps \<noteq> [Json v]))"
    by simp
  have s1: "storage ?w1 = Writable" by (simp add: fresh_world_def)
  have h2: "data_file ?w2 = Text [Json NotObject]" by simp
  have h3: "data_file ?w3 = Text [Json (Object ?d)] \<and> doc_subjects ?d \<noteq> None \<and>
            doc_students ?d = None" by simp
  from load_fallback [of ?w1] h1 s1 have
    "fst (initialize_data ?w1) =
       Inr ([''English'', ''Maths'', ''Science'', ''Social'', ''History''], [],
            \<lparr>shape = [0], data = []\<rparr>) \<and>
     data_file (snd (initialize_data ?w1)) =
       Text [Json (Object
         \<lparr>doc_subjects = Some [''English'', ''Maths'', ''Science'', ''Social'', ''History''],
          doc_students = Some [], doc_marks = Some (Arr [])\<rparr>)]"
    by blast
  moreover from load_fallback [of ?w2] h2 have "initialize_data ?w2 = (Inl TypeError, ?w2)"
    by blast
  then have "fst (initialize_data ?w2) = Inl TypeError" by simp
  moreover from load_fallback [of ?w3 ?d] h3
  have "initialize_data ?w3 = (Inl (KeyError ''students''), ?w3)"
    by blast
  then have "fst (initialize_data ?w3) = Inl (KeyError ''students'')" by simp
  ultimately show ?thesis by blast
qed

text \<open>
  The claim C3 as stated fails twice: a file holding a JSON object without the key
  \<^verbatim>\<open>subjects\<close> is present and is not the expected document, and loading it raises
  KeyError, which the \<^verbatim>\<open>except\<close> clause does not catch; and with no file, on storage
  that fails the write, the fallback's own save raises.
\<close>

theorem load_raises_counterexample:
  "fst (initialize_data
          (fresh_world\<lparr>data_file := Text [Json (Object \<lparr>doc_subjects = None,
                                                           doc_students = None,
                                                           doc_marks = None\<rparr>)]\<rparr>))
     = Inl (KeyError ''subjects'') \<and>
   fst (initialize_data (fresh_world\<lparr>storage := WriteFails\<rparr>)) = Inl OSError"
  by (simp add: initialize_data_def initialize_default_eq save_data_eq json_load_def
        fresh_world_def)

text \<open>
  C4, as the code has it. With the file missing and storage that takes the write,
  \<^verbatim>\<open>initialize_data\<close> returns the subjects English, Maths, Science, Social and History, no
  students and the empty marks table; the file then holds the document of exactly that
  state, and loading it again returns the same state. On storage that does not take the
  write it raises OSError instead, and no file with that state exists afterwards: none
  at all when the file could not be opened, an empty one when the write failed.
\<close>

theorem load_missing_file:
  assumes "data_file w = Absent"
  shows "(storage w = Writable \<longrightarrow>
            fst (initialize_data w) =
              Inr ([''English'', ''Maths'', ''Science'', ''Social'', ''History''], [],
                   \<lparr>shape = [0], data = []\<rparr>) \<and>
            data_file (snd (initialize_data w)) =
              Text [Json (Object
                \<lparr>doc_subjects = Some [''English'', ''Maths'', ''Science'', ''Social'', ''History''],
                 doc_students = Some [], doc_marks = Some (Arr [])\<rparr>)] \<and>
            fst (initialize_data (snd (initialize_data w))) =
              Inr ([''English'', ''Maths'', ''Science'', ''Social'', ''History''], [],
                   \<lparr>shape = [0], data = []\<rparr>)) \<and>
         (storage w = OpenRefused \<longrightarrow>
            fst (initialize_data w) = Inl OSError \<and>
            data_file (snd (initialize_data w)) = Absent) \<and>
         (storage w = WriteFails \<longrightarrow>
            fst (initialize_data w) = Inl OSError \<and>
            data_file (snd (initialize_data w)) = Text [])"
proof -
  from assms have fb: "json_load (data_file w) = Inl FileNotFoundError \<or>
                       json_load (data_file w) = Inl JSONDecodeError"
    by (simp add: json_load_def)
  have a: "storage w = Writable \<longrightarrow>
            fst (initialize_data w) =
              Inr ([''English'', ''Maths'', ''Science'', ''Social'', ''History''], [],
                   \<lparr>shape = [0], data = []\<rparr>) \<and>
            data_file (snd (initialize_data w)) =
              Text [Json (Object
                \<lparr>doc_subjects = Some [''English'', ''Maths'', ''Science'', ''Social'', ''History''],
                 doc_students = Some [], doc_marks = Some (Arr [])\<rparr>)] \<and>
            fst (initialize_data (snd (initialize_data w))) =
              Inr ([''English'', ''Maths'', ''Science'', ''Social'', ''History''], [],
                   \<lparr>shape = [0], data = []\<rparr>)"
  proof
    assume s: "storage w = Writable"
    note e = load_default_writable [OF fb s]
    have "fst (initialize_data (snd (initialize_data w))) =
              Inr ([''English'', ''Maths'', ''Science'', ''Social'', ''History''], [],
                   \<lparr>shape = [0], data = []\<rparr>)"
      unfolding e by (simp add: initialize_data_def json_load_def np_array_empty)
    with e show "fst (initialize_data w) =
              Inr ([''English'', ''Maths'', ''Science'', ''Social'', ''History''], [],
                   \<lparr>shape = [0], data = []\<rparr>) \<and>
            data_file (snd (initialize_data w)) =
              Text [Json (Object
                \<lparr>doc_subjects = Some [''English'', ''Maths'', ''Science'', ''Social'', ''History''],
                 doc_students = Some [], doc_marks = Some (Arr [])\<rparr>)] \<and>
            fst (initialize_data (snd (initialize_data w))) =
              Inr ([''English'', ''Maths'', ''Science'', ''Social'', ''History''], [],
                   \<lparr>shape = [0], data = []\<rparr>)"
      by simp
  qed
  have b: "storage w = OpenRefused \<longrightarrow>
            fst (initialize_data w) = Inl OSError \<and>
            data_file (snd (initialize_data w)) = Absent"
    using load_default_refused [OF fb] assms by simp
  have c: "storage w = WriteFails \<longrightarrow>
            fst (initialize_data w) = Inl OSError \<and>
            data_file (snd (initialize_data w)) = Text []"
    using load_default_refused [OF fb] by simp
  from a b c show ?thesis by blast
qed

theorem load_missing_file_witness:
  "data_file fresh_world = Absent \<and> storage fresh_world = Writable \<and>
   fst (initialize_data fresh_world) =
     Inr ([''English'', ''Maths'', ''Science'', ''Social'', ''History''], [],
          \<lparr>shape = [0], data = []\<rparr>) \<and>
   data_file (snd (initialize_data fresh_world)) =
     Text [Json (Object
       \<lparr>doc_subjects = Some [''English'', ''Maths'', ''Science'', ''Social'', ''History''],
        doc_students = Some [], doc_marks = Some (Arr [])\<rparr>)]"
proof -
  have a: "data_file fresh_world = Absent" and b: "storage fresh_world = Writable"
    by (simp_all add: fresh_world_def)
  from load_missing_file [OF a] a b show ?thesis by blast
qed

text \<open>
  The claim C4 as stated fails when the storage refuses the write: the file is missing,
  \<^verbatim>\<open>initialize_data\<close> raises OSError instead of returning, and there is still no file.
\<close>

theorem load_missing_file_counterexample:
  "data_file (fresh_world\<lparr>storage := OpenRefused\<rparr>) = Absent \<and>
   fst (initialize_data (fresh_world\<lparr>storage := OpenRefused\<rparr>)) = Inl OSError \<and>
   data_file (snd (initialize_data (fresh_world\<lparr>storage := OpenRefused\<rparr>))) = Absent"
  by (simp add: initialize_data_def initialize_default_eq save_data_eq json_load_def
        fresh_world_def)

text \<open>
  C8. \<^verbatim>\<open>save_data\<close> raises exactly when the storage does not take the write; what it
  raises is an OSError, and it reaches the caller. A save that succeeds leaves in the
  file one JSON document and nothing else, whatever the file held before: the subjects,
  the students and the marks, the marks being the list of the rows of the table (the
  empty list for the empty table), and it prints that the data was saved. A save refused
  at \<^verbatim>\<open>open\<close> changes nothing; a write that fails after \<^verbatim>\<open>open\<close> leaves an empty file.
  Nothing is caught on the way: what \<^verbatim>\<open>open\<close> or \<^verbatim>\<open>json.dump\<close> raises is what
  \<^verbatim>\<open>save_data\<close> raises.
\<close>

theorem save_data_outcome:
  "(fst (save_data subjects students marks w) = Inr () \<longleftrightarrow> storage w = Writable) \<and>
   (fst (save_data subjects students marks w) = Inl OSError \<longleftrightarrow> storage w \<noteq> Writable) \<and>
   (storage w = Writable \<longrightarrow>
      data_file (snd (save_data subjects students marks w)) =
        Text [Json (Object \<lparr>doc_subjects = Some subjects, doc_students = Some students,
                             doc_marks = Some (tolist marks)\<rparr>)] \<and>
      (wf_array marks \<and> shape marks = [R, C] \<longrightarrow>
         tolist marks = Arr (map (\<lambda>row. Arr (map Num row)) (table_rows marks))) \<and>
      (shape marks = [0] \<longrightarrow> tolist marks = Arr []) \<and>
      stdout (snd (save_data subjects students marks w)) =
        stdout w @ [Line (CHR 0x1B # ''[92mData saved successfully.'' @ CHR 0x1B # ''[0m'')]) \<and>
   (storage w = OpenRefused \<longrightarrow> snd (save_data subjects students marks w) = w) \<and>
   (storage w = WriteFails \<longrightarrow>
      data_file (snd (save_data subjects students marks w)) = Text []) \<and>
   (\<forall>e w1. open_write w = (Inl e, w1) \<longrightarrow>
      save_data subjects students marks w = (Inl e, w1)) \<and>
   (\<forall>e w1 w2.
      open_write w = (Inr (), w1) \<and>
      json_dump (Object \<lparr>doc_subjects = Some subjects, doc_students = Some students,
                         doc_marks = Some (tolist marks)\<rparr>) w1 = (Inl e, w2) \<longrightarrow>
      save_data subjects students marks w = (Inl e, w2))"
proof -
  have a: "fst (save_data subjects students marks w) = Inr () \<longleftrightarrow> storage w = Writable"
    by (cases "storage w") (simp_all add: save_data_eq)
  have b: "fst (save_data subjects students marks w) = Inl OSError \<longleftrightarrow> storage w \<noteq> Writable"
    by (cases "storage w") (simp_all add: save_data_eq)
  have c: "storage w = Writable \<longrightarrow>
      data_file (snd (save_data subjects students marks w)) =
        Text [Json (Object \<lparr>doc_subjects = Some subjects, doc_students = Some students,
                             doc_marks = Some (tolist marks)\<rparr>)]"
    by (simp add: save_data_eq)
  have d: "wf_array marks \<and> shape marks = [R, C] \<longrightarrow>
         tolist marks = Arr (map (\<lambda>row. Arr (map Num row)) (table_rows marks))"
    using tolist_rows [of marks R C] by blast
  have e: "shape marks = [0] \<longrightarrow> tolist marks = Arr []"
    by (simp add: tolist_empty)
  have f: "storage w = Writable \<longrightarrow>
      stdout (snd (save_data subjects students marks w)) =
        stdout w @ [Line (CHR 0x1B # ''[92mData saved successfully.'' @ CHR 0x1B # ''[0m'')]"
    by (simp add: save_data_eq GREEN_def ENDC_def)
  have g: "storage w = OpenRefused \<longrightarrow> snd (save_data subjects students marks w) = w"
    by (simp add: save_data_eq)
  have h: "storage w = WriteFails \<longrightarrow>
      data_file (snd (save_data subjects students marks w)) = Text []"
    by (simp add: save_data_eq)
  have i: "\<forall>e w1. open_write w = (Inl e, w1) \<longrightarrow>
      save_data subjects students marks w = (Inl e, w1)"
    by (simp add: save_data_def)
  have j: "\<forall>e w1 w2.
      open_write w = (Inr (), w1) \<and>
      json_dump (Object \<lparr>doc_subjects = Some subjects, doc_students = Some students,
                         doc_marks = Some (tolist marks)\<rparr>) w1 = (Inl e, w2) \<longrightarrow>
      save_data subjects students marks w = (Inl e, w2)"
    by (simp add: save_data_def)
  from a b c d e f g h i j show ?thesis by blast
qed

theorem save_data_outcome_witness:
  "storage (fresh_world\<lparr>data_file := Text [Json NotObject, Junk]\<rparr>) = Writable \<and>
   wf_array \<lparr>shape = [2, 2], data = [70, 80, 100, 0 :: int]\<rparr> \<and>
   fst (save_data [''English'', ''Maths''] [''Alice'', ''Bob'']
          \<lparr>shape = [2, 2], data = [70, 80, 100, 0]\<rparr>
          (fresh_world\<lparr>data_file := Text [Json NotObject, Junk]\<rparr>)) = Inr () \<and>
   data_file (snd (save_data [''English'', ''Maths''] [''Alice'', ''Bob'']
          \<lparr>shape = [2, 2], data = [70, 80, 100, 0]\<rparr>
          (fresh_world\<lparr>data_file := Text [Json NotObject, Junk]\<rparr>))) =
     Text [Json (Object \<lparr>doc_subjects = Some [''English'', ''Maths''],
                          doc_students = Some [''Alice'', ''Bob''],
                          doc_marks = Some (Arr [Arr [Num 70, Num 80], Arr [Num 100, Num 0]])\<rparr>)]"
proof -
  let ?w = "fresh_world\<lparr>data_file := Text [Json NotObject, Junk]\<rparr>"
  let ?m = "\<lparr>shape = [2, 2], data = [70, 80, 100, 0 :: int]\<rparr>"
  have s: "storage ?w = Writable" by (simp add: fresh_world_def)
  have wf: "wf_array ?m" by (simp add: wf_array_def)
  have sh: "shape ?m = [2, 2]" by simp
  have rows: "table_rows ?m = [[70, 80], [100, 0]]"
    by (simp add: table_rows_def iter_array_def upt_rec)
  note t = save_data_outcome [of "[''English'', ''Maths'']" "[''Alice'', ''Bob'']" ?m ?w 2 2]
  from t s have r: "fst (save_data [''English'', ''Maths''] [''Alice'', ''Bob''] ?m ?w) = Inr ()"
    by blast
  from t s have f: "data_file (snd (save_data [''English'', ''Maths''] [''Alice'', ''Bob''] ?m ?w)) =
        Text [Json (Object \<lparr>doc_subjects = Some [''English'', ''Maths''],
                             doc_students = Some [''Alice'', ''Bob''],
                             doc_marks = Some (tolist ?m)\<rparr>)]"
    by blast
  from t s wf sh have "tolist ?m = Arr (map (\<lambda>row. Arr (map Num row)) (table_rows ?m))"
    by blast
  with rows have "tolist ?m = Arr [Arr [Num 70, Num 80], Arr [Num 100, Num 0]]" by simp
  with s wf r f show ?thesis by simp
qed

section \<open>Trend analysis\<close>

text \<open>
  C9. With fewer than two students \<^verbatim>\<open>analyze_trend\<close> returns after printing one line, the
  message that there is not enough data to analyze trends (in yellow); no call reaches
  the chart renderer, and the file and the input are left alone, whatever the marks are.
\<close>

theorem analyze_trend_needs_two:
  assumes "length students < 2"
  shows "fst (analyze_trend subjects students marks w) = Inr () \<and>
         stdout (snd (analyze_trend subjects students marks w)) =
           stdout w @ [Line (CHR 0x1B # ''[93mNot enough data to analyze trends.''
                             @ CHR 0x1B # ''[0m'')] \<and>
         charts (snd (analyze_trend subjects students marks w)) = charts w \<and>
         data_file (snd (analyze_trend subjects students marks w)) = data_file w \<and>
         stdin (snd (analyze_trend subjects students marks w)) = stdin w"
  using assms by (simp add: analyze_trend_def YELLOW_def ENDC_def)

theorem analyze_trend_needs_two_witness:
  "length [''Alice''] < 2 \<and>
   fst (analyze_trend [''English'', ''Maths''] [''Alice'']
          \<lparr>shape = [1, 2], data = [70, 80]\<rparr> fresh_world) = Inr () \<and>
   stdout (snd (analyze_trend [''English'', ''Maths''] [''Alice'']
          \<lparr>shape = [1, 2], data = [70, 80]\<rparr> fresh_world)) =
     stdout fresh_world @ [Line (CHR 0x1B # ''[93mNot enough data to analyze trends.''
                                 @ CHR 0x1B # ''[0m'')] \<and>
   charts (snd (analyze_trend [''English'', ''Maths''] [''Alice'']
                  \<lparr>shape = [1, 2], data = [70, 80]\<rparr> fresh_world)) = charts fresh_world"
proof -
  have h: "length [''Alice''] < 2" by simp
  from analyze_trend_needs_two
         [OF h, of "[''English'', ''Maths'']" "\<lparr>shape = [1, 2], data = [70, 80]\<rparr>" fresh_world]
       h
  show ?thesis by blast
qed

section \<open>Record builder: reading and appending a row\<close>

lemma input_frame:
  "input p w = (r, w') \<Longrightarrow>
   data_file w' = data_file w \<and> storage w' = storage w \<and> charts w' = charts w"
  by (auto simp: input_def Let_def split: list.splits)

lemma read_mark_in_range:
  "read_mark int_of subject w = (Inr m, w') \<Longrightarrow> in_range m"
proof (induction int_of subject w rule: read_mark.induct)
  case (1 int_of subject w)
  note ih = "1.IH"
  from "1.prems" show ?case
    apply (subst (asm) read_mark.simps)
    apply (simp split: prod.splits sum.splits option.splits if_splits)
    using ih apply (auto simp: in_range_def)
    done
qed

lemma read_mark_frame:
  "read_mark int_of subject w = (r, w') \<Longrightarrow>
   data_file w' = data_file w \<and> storage w' = storage w \<and> charts w' = charts w"
proof (induction int_of subject w rule: read_mark.induct)
  case (1 int_of subject w)
  note ih = "1.IH"
  from "1.prems" show ?case
    apply (subst (asm) read_mark.simps)
    apply (simp split: prod.splits sum.splits option.splits if_splits)
    using ih input_frame apply (auto dest!: input_frame)
    done
qed

lemma read_marks_result:
  "read_marks int_of subjects acc w = (Inr row, w') \<Longrightarrow>
   \<exists>new. row = acc @ new \<and> length new = length subjects \<and> list_all in_range new"
proof (induction subjects arbitrary: acc w)
  case Nil
  then show ?case by simp
next
  case (Cons subject rest)
  from Cons.prems obtain m w1 where
    m: "read_mark int_of subject w = (Inr m, w1)" and
    r: "read_marks int_of rest (acc @ [m]) w1 = (Inr row, w')"
    by (auto split: prod.splits sum.splits)
  from Cons.IH [OF r] obtain new where
    "row = (acc @ [m]) @ new" "length new = length rest" "list_all in_range new"
    by blast
  with read_mark_in_range [OF m] have
    "row = acc @ (m # new) \<and> length (m # new) = length (subject # rest) \<and>
     list_all in_range (m # new)"
    by simp
  then show ?case by blast
qed

lemma read_marks_frame:
  "read_marks int_of subjects acc w = (r, w') \<Longrightarrow>
   data_file w' = data_file w \<and> storage w' = storage w \<and> charts w' = charts w"
proof (induction subjects arbitrary: acc w)
  case Nil
  then show ?case by simp
next
  case (Cons subject rest)
  obtain r1 w1 where m: "read_mark int_of subject w = (r1, w1)"
    by (cases "read_mark int_of subject w")
  note f1 = read_mark_frame [OF m]
  show ?case
  proof (cases r1)
    case (Inl e)
    with Cons.prems m f1 show ?thesis by simp
  next
    case (Inr mark)
    with Cons.prems m have "read_marks int_of rest (acc @ [mark]) w1 = (r, w')" by simp
    from Cons.IH [OF this] f1 show ?thesis by simp
  qed
qed

lemma read_mark_accept:
  assumes "stdin w = l # ls" "int_of l = Some m" "in_range m"
  shows "read_mark int_of subject w =
           (Inr m, w\<lparr>stdout := stdout w @ [Prompt (''Enter mark for '' @ subject @ '' (0-100): '')],
                      stdin := ls\<rparr>)"
  using assms by (subst read_mark.simps) (simp add: input_def in_range_def)

lemma read_mark_reject_text:
  assumes "stdin w = l # ls" "int_of l = None"
  shows "read_mark int_of subject w =
           read_mark int_of subject
             (w\<lparr>stdin := ls,
                 stdout := stdout w @
                   [Prompt (''Enter mark for '' @ subject @ '' (0-100): ''),
                    Line (CHR 0x1B # ''[91mPlease enter a valid integer.''
                          @ CHR 0x1B # ''[0m'')]\<rparr>)"
  using assms
  by (subst read_mark.simps)
     (simp add: input_def print_colored_def print_def RED_def ENDC_def)

lemma read_mark_reject_range:
  assumes "stdin w = l # ls" "int_of l = Some v" "\<not> in_range v"
  shows "read_mark int_of subject w =
           read_mark int_of subject
             (w\<lparr>stdin := ls,
                 stdout := stdout w @
                   [Prompt (''Enter mark for '' @ subject @ '' (0-100): ''),
                    Line (CHR 0x1B # ''[91mMark should be between 0 and 100.''
                          @ CHR 0x1B # ''[0m'')]\<rparr>)"
  using assms
  by (subst read_mark.simps)
     (auto simp add: input_def in_range_def print_colored_def print_def RED_def ENDC_def)

lemma read_marks_accept:
  "stdin w = lines @ rest \<Longrightarrow> map int_of lines = map Some row \<Longrightarrow>
   length row = length subjects \<Longrightarrow> list_all in_range row \<Longrightarrow>
   \<exists>w'. read_marks int_of subjects acc w = (Inr (acc @ row), w') \<and> stdin w' = rest \<and>
        data_file w' = data_file w \<and> storage w' = storage w"
proof (induction subjects arbitrary: lines row acc w)
  case Nil
  then show ?case by simp
next
  case (Cons subject more)
  from Cons.prems(3) obtain m row' where row: "row = m # row'" "length row' = length more"
    by (cases row) auto
  with Cons.prems(2) obtain l lines' where lines: "lines = l # lines'" "int_of l = Some m"
    "map int_of lines' = map Some row'"
    by (cases lines) auto
  from Cons.prems(4) row have m: "in_range m" and rr: "list_all in_range row'" by auto
  let ?w1 = "w\<lparr>stdout := stdout w @ [Prompt (''Enter mark for '' @ subject @ '' (0-100): '')],
               stdin := lines' @ rest\<rparr>"
  from Cons.prems(1) lines have "stdin w = l # (lines' @ rest)" by simp
  then have rm: "read_mark int_of subject w = (Inr m, ?w1)"
    using lines(2) m by (rule read_mark_accept)
  have "stdin ?w1 = lines' @ rest" by simp
  from Cons.IH [OF this lines(3) row(2) rr, of "acc @ [m]"] obtain w' where
    "read_marks int_of more (acc @ [m]) ?w1 = (Inr ((acc @ [m]) @ row'), w')"
    "stdin w' = rest" "data_file w' = data_file ?w1" "storage w' = storage ?w1"
    by blast
  with rm row show ?case by simp
qed

lemma np_array_row:
  "np_array (Arr [Arr (map Num row)]) = Inr \<lparr>shape = [1, length row], data = row\<rparr>"
proof -
  have d: "dims (Arr (map Num row)) = Some [length row]"
    by (cases row) (simp_all add: list_all_iff)
  have l: "leaves (Arr (map Num row)) = row"
    by (induction row) simp_all
  from d l show ?thesis by (simp add: np_array_def)
qed

lemma append_row_empty:
  "np_size marks = 0 \<Longrightarrow> append_row marks row = Inr \<lparr>shape = [1, length row], data = row\<rparr>"
  by (simp add: append_row_def np_array_row)

lemma append_row_table:
  assumes "shape marks = [R, length row]" "np_size marks \<noteq> 0"
  shows "append_row marks row = Inr \<lparr>shape = [Suc R, length row], data = data marks @ row\<rparr>"
  using assms by (simp add: append_row_def vstack_def atleast_2d_def Let_def)

lemma append_row_result:
  assumes "wf_array marks" "append_row marks row = Inr m"
  shows "wf_array m \<and> (\<exists>r. 0 < r \<and> shape m = [r, length row]) \<and> data m = data marks @ row"
proof (cases "np_size marks = 0")
  case True
  with assms(1) have "data marks = []" by (simp add: wf_array_def np_size_def)
  with True assms(2) show ?thesis
    by (auto simp: append_row_empty wf_array_def)
next
  case False
  with assms(2) have v: "vstack marks row = Inr m" by (simp add: append_row_def)
  show ?thesis
  proof (cases "shape marks")
    case Nil
    with v assms(1) show ?thesis
      by (auto simp: vstack_def atleast_2d_def Let_def wf_array_def split: if_splits)
  next
    case (Cons d ds)
    note outer = this
    show ?thesis
    proof (cases ds)
      case Nil
      with outer v assms(1) show ?thesis
        by (auto simp: vstack_def atleast_2d_def Let_def wf_array_def split: if_splits)
    next
      case (Cons c cs)
      with outer v assms(1) show ?thesis
        by (auto simp: vstack_def atleast_2d_def Let_def wf_array_def split: if_splits)
    qed
  qed
qed

lemma chunk_append:
  assumes "length xs = R * C" "i < R"
  shows "take C (drop (i * C) (xs @ row)) = take C (drop (i * C) xs)"
proof -
  from assms(2) have "Suc i * C \<le> R * C" by (intro mult_le_mono1) simp
  with assms(1) have "i * C + C \<le> length xs" by simp
  then show ?thesis by simp
qed

lemma table_rows_append:
  assumes "wf_array a" "shape a = [R, C]" "length row = C"
  shows "table_rows \<lparr>shape = [Suc R, C], data = data a @ row\<rparr> = table_rows a @ [row]"
proof -
  from assms(1,2) have len: "length (data a) = R * C" by (simp add: wf_array_def)
  have "map (\<lambda>i. take C (drop (i * C) (data a @ row))) [0..<R]
        = map (\<lambda>i. take C (drop (i * C) (data a))) [0..<R]"
  proof (rule map_cong)
    fix i assume "i \<in> set [0..<R]"
    then have "i < R" by simp
    with len show "take C (drop (i * C) (data a @ row)) = take C (drop (i * C) (data a))"
      by (rule chunk_append)
  qed simp
  moreover have "take C (drop (R * C) (data a @ row)) = row"
    using len assms(3) by simp
  ultimately show ?thesis
    using assms(2) by (simp add: table_rows_2d)
qed

lemma table_rows_single:
  "length row = C \<Longrightarrow> table_rows \<lparr>shape = [1, C], data = row\<rparr> = [row]"
  by (simp add: table_rows_2d)

lemma table_rows_last:
  assumes "wf_array m" "shape m = [r, C]" "data m = xs @ row" "length row = C" "0 < r"
  shows "last (table_rows m) = row"
proof -
  from assms obtain q where r: "r = Suc q" by (cases r) auto
  from assms(1,2,3,4) r have "length xs = q * C" by (simp add: wf_array_def)
  with assms(3,4) have "take C (drop (q * C) (data m)) = row" by simp
  with assms(2) r show ?thesis by (simp add: table_rows_2d)
qed

lemma add_record_accept:
  assumes "stdin w = name # lines @ rest" "map int_of lines = map Some row"
    "length row = length subjects" "list_all in_range row" "storage w = Writable"
    "append_row marks row = Inr marks'"
  shows "\<exists>w'. add_record int_of subjects students marks w = (Inr (students @ [name], marks'), w') \<and>
              stdin w' = rest \<and> storage w' = Writable \<and>
              data_file w' = Text [Json (Object \<lparr>doc_subjects = Some subjects,
                                        doc_students = Some (students @ [name]),
                                        doc_marks = Some (tolist marks')\<rparr>)]"
proof -
  let ?w0 = "print_colored (CHR 0x0A # ''Adding a new student record'') HEADER w"
  let ?w1 = "?w0\<lparr>stdout := stdout ?w0 @ [Prompt ''Enter student name: ''], stdin := lines @ rest\<rparr>"
  from assms(1) have i: "input ''Enter student name: '' ?w0 = (Inr name, ?w1)"
    by (simp add: input_def)
  have "stdin ?w1 = lines @ rest" by simp
  from read_marks_accept [OF this assms(2,3,4), of "[]"] obtain w2 where
    rm: "read_marks int_of subjects [] ?w1 = (Inr row, w2)" and
    w2: "stdin w2 = rest" "storage w2 = storage ?w1"
    by auto
  from w2 assms(5) have wr: "storage w2 = Writable" by simp
  show ?thesis
    using i rm wr w2(1) assms(6)
    by (simp add: add_record_def Let_def save_data_eq)
qed

lemma add_record_refused:
  assumes "stdin w = name # lines @ rest" "map int_of lines = map Some row"
    "length row = length subjects" "list_all in_range row" "storage w \<noteq> Writable"
    "append_row marks row = Inr marks'"
  shows "fst (add_record int_of subjects students marks w) = Inl OSError"
proof -
  let ?w0 = "print_colored (CHR 0x0A # ''Adding a new student record'') HEADER w"
  let ?w1 = "?w0\<lparr>stdout := stdout ?w0 @ [Prompt ''Enter student name: ''], stdin := lines @ rest\<rparr>"
  from assms(1) have i: "input ''Enter student name: '' ?w0 = (Inr name, ?w1)"
    by (simp add: input_def)
  have "stdin ?w1 = lines @ rest" by simp
  from read_marks_accept [OF this assms(2,3,4), of "[]"] obtain w2 where
    rm: "read_marks int_of subjects [] ?w1 = (Inr row, w2)" and
    w2: "stdin w2 = rest" "storage w2 = storage ?w1"
    by auto
  from w2 assms(5) have wr: "storage w2 \<noteq> Writable" by simp
  show ?thesis
    using i rm wr assms(6)
    by (cases "storage w2") (simp_all add: add_record_def Let_def save_data_eq)
qed

lemma add_record_returns:
  assumes "add_record int_of subjects s0 m0 w0 = (Inr (s1, m1), w1)"
  shows "\<exists>name new wa wb. read_marks int_of subjects [] wa = (Inr new, wb) \<and>
           append_row m0 new = Inr m1 \<and> s1 = s0 @ [name] \<and>
           data_file w1 = Text [Json (Object \<lparr>doc_subjects = Some subjects,
                                               doc_students = Some s1,
                                               doc_marks = Some (tolist m1)\<rparr>)]"
proof -
  obtain r1 wi where i: "input ''Enter student name: ''
      (print_colored (CHR 0x0A # ''Adding a new student record'') HEADER w0) = (r1, wi)"
    by (cases "input ''Enter student name: ''
      (print_colored (CHR 0x0A # ''Adding a new student record'') HEADER w0)")
  with assms obtain name where n: "r1 = Inr name"
    by (cases r1) (auto simp: add_record_def)
  obtain r2 wb where rm: "read_marks int_of subjects [] wi = (r2, wb)"
    by (cases "read_marks int_of subjects [] wi")
  with assms i n obtain new where nw: "r2 = Inr new"
    by (cases r2) (auto simp: add_record_def)
  from assms i n rm nw obtain m where ar: "append_row m0 new = Inr m"
    by (cases "append_row m0 new") (auto simp: add_record_def Let_def)
  from assms i n rm nw ar have "storage wb = Writable"
    by (cases "storage wb") (auto simp: add_record_def Let_def save_data_eq)
  with assms i n rm nw ar have "m1 = m" "s1 = s0 @ [name]"
    "data_file w1 = Text [Json (Object \<lparr>doc_subjects = Some subjects,
                                               doc_students = Some s1,
                                               doc_marks = Some (tolist m1)\<rparr>)]"
    by (auto simp: add_record_def Let_def save_data_eq)
  with rm nw ar show ?thesis by blast
qed

text \<open>
  C2, as the code has it. A marks table with elements (\<open>R\<close> rows of as many columns as
  there are subjects, marks between 0 and 100), a name and a valid row typed in, and
  storage that takes the write: \<^verbatim>\<open>add_record\<close> returns the students with the name added and
  the table with \<open>R + 1\<close> rows, the first \<open>R\<close> unchanged and the last the typed row, and
  the file holds the new state. A table without elements (the empty array of a fresh
  start, or a table with no columns) gives the table of one row, the typed one. On
  storage that does not take the write \<^verbatim>\<open>add_record\<close> raises OSError. And whatever was
  typed, a table that \<^verbatim>\<open>add_record\<close> returns is rectangular, with at least one row, as
  many columns as there are subjects, and marks between 0 and 100.
\<close>

theorem add_record_appends_row:
  assumes "wf_array marks" and "list_all in_range (data marks)"
    and "stdin w = name # lines @ rest" and "map int_of lines = map Some row"
    and "length row = length subjects" and "list_all in_range row"
  shows "(storage w = Writable \<and> np_size marks \<noteq> 0 \<and> shape marks = [R, length subjects] \<longrightarrow>
            fst (add_record int_of subjects students marks w) =
              Inr (students @ [name],
                   \<lparr>shape = [Suc R, length subjects], data = data marks @ row\<rparr>) \<and>
            table_rows \<lparr>shape = [Suc R, length subjects], data = data marks @ row\<rparr> =
              table_rows marks @ [row] \<and>
            data_file (snd (add_record int_of subjects students marks w)) =
              Text [Json (Object
                \<lparr>doc_subjects = Some subjects, doc_students = Some (students @ [name]),
                 doc_marks = Some (tolist \<lparr>shape = [Suc R, length subjects],
                                           data = data marks @ row\<rparr>)\<rparr>)]) \<and>
         (storage w = Writable \<and> np_size marks = 0 \<longrightarrow>
            fst (add_record int_of subjects students marks w) =
              Inr (students @ [name], \<lparr>shape = [1, length subjects], data = row\<rparr>) \<and>
            table_rows \<lparr>shape = [1, length subjects], data = row\<rparr> = [row] \<and>
            data_file (snd (add_record int_of subjects students marks w)) =
              Text [Json (Object
                \<lparr>doc_subjects = Some subjects, doc_students = Some (students @ [name]),
                 doc_marks = Some (tolist \<lparr>shape = [1, length subjects], data = row\<rparr>)\<rparr>)]) \<and>
         (storage w \<noteq> Writable \<and> (np_size marks = 0 \<or> shape marks = [R, length subjects]) \<longrightarrow>
            fst (add_record int_of subjects students marks w) = Inl OSError) \<and>
         (\<forall>s0 m0 w0 s1 m1 w1.
            wf_array m0 \<and> list_all in_range (data m0) \<and>
            add_record int_of subjects s0 m0 w0 = (Inr (s1, m1), w1) \<longrightarrow>
            wf_array m1 \<and> (\<exists>r. 0 < r \<and> shape m1 = [r, length subjects]) \<and>
            list_all in_range (data m1))"
proof -
  let ?big = "\<lparr>shape = [Suc R, length subjects], data = data marks @ row\<rparr>"
  let ?one = "\<lparr>shape = [1, length subjects], data = row\<rparr>"
  have a: "fst (add_record int_of subjects students marks w) = Inr (students @ [name], ?big) \<and>
           table_rows ?big = table_rows marks @ [row] \<and>
           data_file (snd (add_record int_of subjects students marks w)) =
              Text [Json (Object
                \<lparr>doc_subjects = Some subjects, doc_students = Some (students @ [name]),
                 doc_marks = Some (tolist ?big)\<rparr>)]"
    if h: "storage w = Writable \<and> np_size marks \<noteq> 0 \<and> shape marks = [R, length subjects]"
  proof -
    from h assms(5) have ar: "append_row marks row = Inr ?big"
      using append_row_table [of marks R row] by simp
    from h have s: "storage w = Writable" by simp
    from add_record_accept [OF assms(3,4,5,6) s ar, of students]
    have "fst (add_record int_of subjects students marks w) = Inr (students @ [name], ?big)"
      "data_file (snd (add_record int_of subjects students marks w)) =
              Text [Json (Object
                \<lparr>doc_subjects = Some subjects, doc_students = Some (students @ [name]),
                 doc_marks = Some (tolist ?big)\<rparr>)]"
      by auto
    moreover from h assms(1,5) have "table_rows ?big = table_rows marks @ [row]"
      by (simp add: table_rows_append)
    ultimately show ?thesis by blast
  qed
  have b: "fst (add_record int_of subjects students marks w) = Inr (students @ [name], ?one) \<and>
           table_rows ?one = [row] \<and>
           data_file (snd (add_record int_of subjects students marks w)) =
              Text [Json (Object
                \<lparr>doc_subjects = Some subjects, doc_students = Some (students @ [name]),
                 doc_marks = Some (tolist ?one)\<rparr>)]"
    if h: "storage w = Writable \<and> np_size marks = 0"
  proof -
    from h assms(5) have ar: "append_row marks row = Inr ?one"
      by (simp add: append_row_empty)
    from h have s: "storage w = Writable" by simp
    from add_record_accept [OF assms(3,4,5,6) s ar, of students]
    have "fst (add_record int_of subjects students marks w) = Inr (students @ [name], ?one)"
      "data_file (snd (add_record int_of subjects students marks w)) =
              Text [Json (Object
                \<lparr>doc_subjects = Some subjects, doc_students = Some (students @ [name]),
                 doc_marks = Some (tolist ?one)\<rparr>)]"
      by auto
    moreover from assms(5) have "table_rows ?one = [row]"
      by (rule table_rows_single)
    ultimately show ?thesis by blast
  qed
  have c: "fst (add_record int_of subjects students marks w) = Inl OSError"
    if h: "storage w \<noteq> Writable \<and> (np_size marks = 0 \<or> shape marks = [R, length subjects])"
  proof -
    from h assms(5) have "\<exists>m. append_row marks row = Inr m"
      using append_row_table [of marks R row] append_row_empty [of marks row]
      by (cases "np_size marks = 0") auto
    then obtain m where ar: "append_row marks row = Inr m" ..
    from h have s: "storage w \<noteq> Writable" by simp
    from add_record_refused [OF assms(3,4,5,6) s ar] show ?thesis .
  qed
  have d: "wf_array m1 \<and> (\<exists>r. 0 < r \<and> shape m1 = [r, length subjects]) \<and>
           list_all in_range (data m1)"
    if h: "wf_array m0 \<and> list_all in_range (data m0) \<and>
           add_record int_of subjects s0 m0 w0 = (Inr (s1, m1), w1)"
    for s0 m0 w0 s1 m1 w1
  proof -
    from h have ret: "add_record int_of subjects s0 m0 w0 = (Inr (s1, m1), w1)" by simp
    from add_record_returns [OF ret] obtain new wa wb where
      rm: "read_marks int_of subjects [] wa = (Inr new, wb)" and
      ar: "append_row m0 new = Inr m1"
      by blast
    from read_marks_result [OF rm] have n: "length new = length subjects" "list_all in_range new"
      by auto
    from h have "wf_array m0" by simp
    from append_row_result [OF this ar] n h show ?thesis by auto
  qed
  from a b c d show ?thesis by blast
qed

theorem add_record_appends_row_witness:
  "wf_array \<lparr>shape = [1, 2], data = [70, 80 :: int]\<rparr> \<and>
   list_all in_range [70, 80] \<and>
   map decimal [''100'', ''0''] = map Some [100, 0] \<and>
   list_all in_range [100, 0] \<and>
   storage (fresh_world\<lparr>stdin := [''Bob'', ''100'', ''0'']\<rparr>) = Writable \<and>
   fst (add_record decimal [''English'', ''Maths''] [''Alice'']
          \<lparr>shape = [1, 2], data = [70, 80]\<rparr>
          (fresh_world\<lparr>stdin := [''Bob'', ''100'', ''0'']\<rparr>)) =
     Inr ([''Alice'', ''Bob''], \<lparr>shape = [2, 2], data = [70, 80, 100, 0]\<rparr>)"
proof -
  let ?m = "\<lparr>shape = [1, 2], data = [70, 80 :: int]\<rparr>"
  let ?w = "fresh_world\<lparr>stdin := [''Bob'', ''100'', ''0'']\<rparr>"
  have wf: "wf_array ?m" by (simp add: wf_array_def)
  have r0: "list_all in_range (data ?m)" by (simp add: in_range_def)
  have i: "stdin ?w = ''Bob'' # [''100'', ''0''] @ []" by simp
  have p: "map decimal [''100'', ''0''] = map Some [100, 0]"
    by (simp add: decimal_def digit_of_def)
  have l: "length [100, 0 :: int] = length [''English'', ''Maths'']" by simp
  have r: "list_all in_range [100, 0]" by (simp add: in_range_def)
  have s: "storage ?w = Writable" by (simp add: fresh_world_def)
  have n: "np_size ?m \<noteq> 0" by (simp add: np_size_def)
  have sh: "shape ?m = [1, length [''English'', ''Maths'']]" by simp
  from add_record_appends_row [OF wf r0 i p l r, of 1 "[''Alice'']"] s n sh
  have "fst (add_record decimal [''English'', ''Maths''] [''Alice''] ?m ?w) =
          Inr ([''Alice''] @ [''Bob''],
               \<lparr>shape = [Suc 1, length [''English'', ''Maths'']], data = data ?m @ [100, 0]\<rparr>)"
    by blast
  then have "fst (add_record decimal [''English'', ''Maths''] [''Alice''] ?m ?w) =
          Inr ([''Alice'', ''Bob''], \<lparr>shape = [2, 2], data = [70, 80, 100, 0]\<rparr>)"
    by simp
  with wf r0 p r s show ?thesis by simp
qed

text \<open>
  The claim C2 as stated fails on a table with rows and no columns, which has no
  elements: with no subjects, one student and the 1 by 0 table, \<^verbatim>\<open>add_record\<close> takes the
  branch for the empty table and returns a table of one row again, now for two students.
  It also fails where the storage refuses the write: \<^verbatim>\<open>add_record\<close> raises instead of
  returning a table.
\<close>

theorem add_record_counterexample:
  "wf_array \<lparr>shape = [1, 0], data = [] :: int list\<rparr> \<and>
   table_rows \<lparr>shape = [1, 0], data = []\<rparr> = [[]] \<and>
   fst (add_record decimal [] [''Alice''] \<lparr>shape = [1, 0], data = []\<rparr>
          (fresh_world\<lparr>stdin := [''Bob'']\<rparr>)) =
     Inr ([''Alice'', ''Bob''], \<lparr>shape = [1, 0], data = []\<rparr>) \<and>
   fst (add_record decimal [''Maths''] [] \<lparr>shape = [0], data = []\<rparr>
          (fresh_world\<lparr>stdin := [''Bob'', ''70''], storage := OpenRefused\<rparr>)) = Inl OSError"
proof -
  let ?m = "\<lparr>shape = [1, 0], data = [] :: int list\<rparr>"
  let ?w = "fresh_world\<lparr>stdin := [''Bob'']\<rparr>"
  have wf: "wf_array ?m" by (simp add: wf_array_def)
  have rows: "table_rows ?m = [[]]" by (simp add: table_rows_2d)
  have ar: "append_row ?m [] = Inr ?m"
    using append_row_empty [of ?m "[]"] by (simp add: np_size_def)
  have i1: "stdin ?w = ''Bob'' # [] @ []" by simp
  have p1: "map decimal [] = map Some []" by simp
  have l1: "length ([] :: int list) = length ([] :: string list)" by simp
  have g1: "list_all in_range []" by simp
  have s1: "storage ?w = Writable" by (simp add: fresh_world_def)
  from add_record_accept [OF i1 p1 l1 g1 s1 ar, of "[''Alice'']"]
  have one: "fst (add_record decimal [] [''Alice''] ?m ?w) = Inr ([''Alice'', ''Bob''], ?m)"
    by auto
  let ?e = "\<lparr>shape = [0], data = [] :: int list\<rparr>"
  let ?v = "fresh_world\<lparr>stdin := [''Bob'', ''70''], storage := OpenRefused\<rparr>"
  have ar2: "append_row ?e [70] = Inr \<lparr>shape = [1, length [70 :: int]], data = [70]\<rparr>"
    by (rule append_row_empty) (simp add: np_size_def)
  have "stdin ?v = ''Bob'' # [''70''] @ []" by simp
  moreover have "map decimal [''70''] = map Some [70]" by (simp add: decimal_def digit_of_def)
  moreover have "length [70 :: int] = length [''Maths'']" by simp
  moreover have "list_all in_range [70]" by (simp add: in_range_def)
  moreover have "storage ?v \<noteq> Writable" by simp
  ultimately have two: "fst (add_record decimal [''Maths''] [] ?e ?v) = Inl OSError"
    using ar2 by (rule add_record_refused)
  from wf rows one two show ?thesis by blast
qed



section \<open>Statistics\<close>

lemma mean_nonempty:
  "xs \<noteq> [] \<Longrightarrow> mean xs = Float (real_of_int (sum_list xs) / real (length xs))"
  by (simp add: mean_def)

lemma chunk_nth:
  assumes "length xs = R * C" "i < R" "j < C"
  shows "take C (drop (i * C) xs) ! j = xs ! (i * C + j)"
proof -
  from assms(2) have "Suc i * C \<le> R * C" by (intro mult_le_mono1) simp
  with assms(1,3) have "i * C + j < length xs" by simp
  with assms(3) show ?thesis by simp
qed

lemma column_of_rows:
  assumes "wf_array a" "shape a = [R, C]" "j < C"
  shows "map (\<lambda>i. data a ! (i * C + j)) [0..<R] = map (\<lambda>row. row ! j) (table_rows a)"
proof -
  from assms(1,2) have len: "length (data a) = R * C" by (simp add: wf_array_def)
  have "map (\<lambda>i. data a ! (i * C + j)) [0..<R]
        = map (\<lambda>i. take C (drop (i * C) (data a)) ! j) [0..<R]"
  proof (rule map_cong)
    fix i assume "i \<in> set [0..<R]"
    then have "i < R" by simp
    from chunk_nth [OF len this assms(3)]
    show "data a ! (i * C + j) = take C (drop (i * C) (data a)) ! j" by simp
  qed simp
  with assms(2) show ?thesis by (simp add: table_rows_2d comp_def)
qed

lemma table_rows_length:
  assumes "wf_array a" "shape a = [R, C]"
  shows "length (table_rows a) = R" and "\<And>row. row \<in> set (table_rows a) \<Longrightarrow> length row = C"
proof -
  from assms have len: "length (data a) = R * C" by (simp add: wf_array_def)
  from assms(2) show "length (table_rows a) = R" by (simp add: table_rows_2d)
  fix row assume "row \<in> set (table_rows a)"
  with assms(2) obtain i where "i < R" "row = take C (drop (i * C) (data a))"
    by (auto simp: table_rows_2d)
  with length_chunk [OF len] show "length row = C" by simp
qed

lemma np_mean_axis0_table:
  assumes "wf_array a" "shape a = [R, C]" "0 < R"
  shows "np_mean_axis0 a =
           Inr \<lparr>shape = [C],
                data = map (\<lambda>j. Float (real_of_int (sum_list (map (\<lambda>row. row ! j) (table_rows a)))
                                       / real R)) [0..<C]\<rparr>"
proof -
  have "map (\<lambda>j. mean (map (\<lambda>i. data a ! (i * C + j)) [0..<R])) [0..<C]
        = map (\<lambda>j. Float (real_of_int (sum_list (map (\<lambda>row. row ! j) (table_rows a)))
                           / real R)) [0..<C]"
  proof (rule map_cong)
    fix j assume "j \<in> set [0..<C]"
    then have j: "j < C" by simp
    from table_rows_length(1) [OF assms(1,2)] assms(3)
    have ne: "map (\<lambda>row. row ! j) (table_rows a) \<noteq> []"
      and ln: "length (map (\<lambda>row. row ! j) (table_rows a)) = R"
      by auto
    from column_of_rows [OF assms(1,2) j] mean_nonempty [OF ne] ln
    show "mean (map (\<lambda>i. data a ! (i * C + j)) [0..<R])
          = Float (real_of_int (sum_list (map (\<lambda>row. row ! j) (table_rows a))) / real R)"
      by simp
  qed simp
  with assms(2) show ?thesis by (simp add: np_mean_axis0_def)
qed

text \<open>
  C6. For a marks table with at least one row and one column (marks between 0 and
  100), \<^verbatim>\<open>subject_comparison\<close>
  hands the renderer, as the heights of the bars, one value for each column: the sum of
  the column's marks over the rows divided by the number of rows; it labels each bar
  with that value and prints nothing. For a table with no rows it prints that no data
  is available for comparison, computes no mean and makes no call to the renderer.
\<close>

theorem subject_comparison_means:
  "(wf_array marks \<and> list_all in_range (data marks) \<and>
    shape marks = [R, C] \<and> 0 < R \<and> 0 < C \<longrightarrow>
      fst (subject_comparison subjects students marks w) = Inr () \<and>
      charts (snd (subject_comparison subjects students marks w)) =
        charts w @
        [Figure,
         Bar subjects
           \<lparr>shape = [C],
            data = map (\<lambda>j. Float (real_of_int (sum_list (map (\<lambda>row. row ! j) (table_rows marks)))
                                   / real R)) [0..<C]\<rparr>,
         Title ''Average Performance by Subject'', XLabel ''Subjects'',
         YLabel ''Average Marks'', YLim] @
        map (\<lambda>j. BarText (Float (real_of_int (sum_list (map (\<lambda>row. row ! j) (table_rows marks)))
                                  / real R))) [0..<C] @
        [Grid, TightLayout, Show] \<and>
      stdout (snd (subject_comparison subjects students marks w)) = stdout w) \<and>
   (shape marks = 0 # ds \<longrightarrow>
      fst (subject_comparison subjects students marks w) = Inr () \<and>
      stdout (snd (subject_comparison subjects students marks w)) =
        stdout w @ [Line (CHR 0x1B # ''[93mNo data available for comparison.''
                          @ CHR 0x1B # ''[0m'')] \<and>
      charts (snd (subject_comparison subjects students marks w)) = charts w)"
proof -
  have a: "fst (subject_comparison subjects students marks w) = Inr () \<and>
      charts (snd (subject_comparison subjects students marks w)) =
        charts w @
        [Figure,
         Bar subjects
           \<lparr>shape = [C],
            data = map (\<lambda>j. Float (real_of_int (sum_list (map (\<lambda>row. row ! j) (table_rows marks)))
                                   / real R)) [0..<C]\<rparr>,
         Title ''Average Performance by Subject'', XLabel ''Subjects'',
         YLabel ''Average Marks'', YLim] @
        map (\<lambda>j. BarText (Float (real_of_int (sum_list (map (\<lambda>row. row ! j) (table_rows marks)))
                                  / real R))) [0..<C] @
        [Grid, TightLayout, Show] \<and>
      stdout (snd (subject_comparison subjects students marks w)) = stdout w"
    if h: "wf_array marks \<and> list_all in_range (data marks) \<and>
           shape marks = [R, C] \<and> 0 < R \<and> 0 < C"
  proof -
    from h have "np_size marks \<noteq> 0" by (simp add: np_size_def)
    moreover from h have "np_mean_axis0 marks =
           Inr \<lparr>shape = [C],
                data = map (\<lambda>j. Float (real_of_int (sum_list (map (\<lambda>row. row ! j) (table_rows marks)))
                                       / real R)) [0..<C]\<rparr>"
      using np_mean_axis0_table [of marks R C] by blast
    ultimately show ?thesis
      by (simp add: subject_comparison_def plt_def comp_def)
  qed
  have b: "fst (subject_comparison subjects students marks w) = Inr () \<and>
      stdout (snd (subject_comparison subjects students marks w)) =
        stdout w @ [Line (CHR 0x1B # ''[93mNo data available for comparison.''
                          @ CHR 0x1B # ''[0m'')] \<and>
      charts (snd (subject_comparison subjects students marks w)) = charts w"
    if h: "shape marks = 0 # ds"
  proof -
    from h have "np_size marks = 0" by (simp add: np_size_def)
    then show ?thesis
      by (simp add: subject_comparison_def YELLOW_def ENDC_def)
  qed
  from a b show ?thesis by blast
qed

theorem subject_comparison_means_witness:
  "wf_array \<lparr>shape = [2, 2], data = [100, 100, 0, 0 :: int]\<rparr> \<and>
   charts (snd (subject_comparison [''Maths'', ''Science''] [''Alice'', ''Bob'']
                  \<lparr>shape = [2, 2], data = [100, 100, 0, 0]\<rparr> fresh_world)) =
     [Figure, Bar [''Maths'', ''Science''] \<lparr>shape = [2], data = [Float 50, Float 50]\<rparr>,
      Title ''Average Performance by Subject'', XLabel ''Subjects'',
      YLabel ''Average Marks'', YLim, BarText (Float 50), BarText (Float 50),
      Grid, TightLayout, Show] \<and>
   stdout (snd (subject_comparison [''Maths'', ''Science''] [''Alice'', ''Bob'']
                  \<lparr>shape = [0], data = []\<rparr> fresh_world)) =
     [Line (CHR 0x1B # ''[93mNo data available for comparison.'' @ CHR 0x1B # ''[0m'')]"
proof -
  let ?m = "\<lparr>shape = [2, 2], data = [100, 100, 0, 0 :: int]\<rparr>"
  let ?e = "\<lparr>shape = [0], data = [] :: int list\<rparr>"
  have wf: "wf_array ?m" by (simp add: wf_array_def)
  have rows: "table_rows ?m = [[100, 100], [0, 0]]"
    by (simp add: table_rows_def iter_array_def upt_rec)
  have u: "[0..<2] = [0, Suc 0]" by (simp add: upt_rec)
  have h: "wf_array ?m \<and> list_all in_range (data ?m) \<and>
           shape ?m = [2, 2] \<and> (0::nat) < 2 \<and> (0::nat) < 2"
    using wf by (simp add: in_range_def)
  from subject_comparison_means
         [of ?m 2 2 "[''Maths'', ''Science'']" "[''Alice'', ''Bob'']" fresh_world] h
  have "charts (snd (subject_comparison [''Maths'', ''Science''] [''Alice'', ''Bob''] ?m fresh_world)) =
        charts fresh_world @
        [Figure,
         Bar [''Maths'', ''Science'']
           \<lparr>shape = [2],
            data = map (\<lambda>j. Float (real_of_int (sum_list (map (\<lambda>row. row ! j) (table_rows ?m)))
                                   / real 2)) [0..<2]\<rparr>,
         Title ''Average Performance by Subject'', XLabel ''Subjects'',
         YLabel ''Average Marks'', YLim] @
        map (\<lambda>j. BarText (Float (real_of_int (sum_list (map (\<lambda>row. row ! j) (table_rows ?m)))
                                  / real 2))) [0..<2] @
        [Grid, TightLayout, Show]"
    by blast
  then have one: "charts (snd (subject_comparison [''Maths'', ''Science''] [''Alice'', ''Bob''] ?m
                    fresh_world)) =
     [Figure, Bar [''Maths'', ''Science''] \<lparr>shape = [2], data = [Float 50, Float 50]\<rparr>,
      Title ''Average Performance by Subject'', XLabel ''Subjects'',
      YLabel ''Average Marks'', YLim, BarText (Float 50), BarText (Float 50),
      Grid, TightLayout, Show]"
    unfolding rows u by (simp add: fresh_world_def)
  have z: "shape ?e = 0 # []" by simp
  from subject_comparison_means
         [of ?e _ _ "[''Maths'', ''Science'']" "[''Alice'', ''Bob'']" fresh_world "[]"] z
  have "stdout (snd (subject_comparison [''Maths'', ''Science''] [''Alice'', ''Bob''] ?e fresh_world)) =
        stdout fresh_world @ [Line (CHR 0x1B # ''[93mNo data available for comparison.''
                          @ CHR 0x1B # ''[0m'')]"
    by blast
  then have two: "stdout (snd (subject_comparison [''Maths'', ''Science''] [''Alice'', ''Bob''] ?e
                    fresh_world)) =
     [Line (CHR 0x1B # ''[93mNo data available for comparison.'' @ CHR 0x1B # ''[0m'')]"
    by (simp add: fresh_world_def)
  from wf one two show ?thesis by blast
qed

lemma display_rows_ok:
  "\<forall>p \<in> set ps. \<exists>k. shape (snd p) = [k] \<Longrightarrow>
   display_rows ps w =
     (Inr (), w\<lparr>stdout := stdout w @
                  map (\<lambda>(s, r). ResultRow (ljust 20 s) (data r) (mean (data r))) ps\<rparr>)"
proof (induction ps arbitrary: w)
  case Nil
  then show ?case by simp
next
  case (Cons p ps)
  obtain s r where p: "p = (s, r)" by (cases p)
  with Cons.prems obtain k where k: "shape r = [k]" by auto
  have "display_rows ps (w\<lparr>stdout := stdout w @ [ResultRow (ljust 20 s) (data r) (np_mean r)]\<rparr>) =
     (Inr (), (w\<lparr>stdout := stdout w @ [ResultRow (ljust 20 s) (data r) (np_mean r)]\<rparr>)
                \<lparr>stdout := stdout (w\<lparr>stdout := stdout w @ [ResultRow (ljust 20 s) (data r) (np_mean r)]\<rparr>) @
                  map (\<lambda>(s, r). ResultRow (ljust 20 s) (data r) (mean (data r))) ps\<rparr>)"
    by (rule Cons.IH) (use Cons.prems in auto)
  with p k show ?case
    by (simp add: row_marks_def np_mean_def)
qed

lemma display_results_table:
  assumes "students \<noteq> []" "table_inv subjects students marks"
  shows "display_results subjects students marks w =
     (Inr (),
      w\<lparr>stdout := stdout w @
           [Line (HEADER @ CHR 0x0A # ''Student Results:'' @ ENDC),
            Line (BOLD @ (ljust 20 ''Student Name'' @ '' | '' @ join '' | '' (map (ljust 8) subjects)
                          @ '' | Average'') @ ENDC),
            Line (BOLD @ replicate (length (ljust 20 ''Student Name'' @ '' | ''
                                             @ join '' | '' (map (ljust 8) subjects)
                                             @ '' | Average'')) CHR ''-'' @ ENDC)] @
           map (\<lambda>(s, row). ResultRow (ljust 20 s) row (mean row))
               (zip students (table_rows marks))\<rparr>)"
proof -
  let ?R = "length students" and ?C = "length subjects"
  from assms have sh: "shape marks = [?R, ?C]" by (simp add: table_inv_def)
  let ?rs = "map (\<lambda>i. \<lparr>shape = [?C], data = take ?C (drop (i * ?C) (data marks))\<rparr>) [0..<?R]"
  from sh have it: "iter_array marks = Inr ?rs" by (simp add: iter_array_def)
  from sh have tr: "table_rows marks = map data ?rs" by (simp add: table_rows_def iter_array_def)
  have "\<forall>p \<in> set (zip students ?rs). \<exists>k. shape (snd p) = [k]"
    by (auto dest!: set_zip_rightD)
  from display_rows_ok [OF this]
  have dr: "display_rows (zip students ?rs) w' =
     (Inr (), w'\<lparr>stdout := stdout w' @
                  map (\<lambda>(s, r). ResultRow (ljust 20 s) (data r) (mean (data r)))
                      (zip students ?rs)\<rparr>)" for w'
    by blast
  have zm: "map (\<lambda>(s, row). ResultRow (ljust 20 s) row (mean row)) (zip students (map data ?rs))
        = map (\<lambda>(s, r). ResultRow (ljust 20 s) (data r) (mean (data r))) (zip students ?rs)"
    unfolding zip_map2 by (simp add: case_prod_beta comp_def)
  show ?thesis
    unfolding tr zm using assms(1) it
    by (simp add: display_results_def Let_def dr print_colored_def print_def)
qed



section \<open>The states of a run\<close>

lemma display_rows_file: "data_file (snd (display_rows ps w)) = data_file w"
proof (induction ps arbitrary: w)
  case Nil
  then show ?case by simp
next
  case (Cons p ps)
  obtain s r where p: "p = (s, r)" by (cases p)
  show ?case
  proof (cases "row_marks r")
    case (Inl e)
    with p show ?thesis by simp
  next
    case (Inr ms)
    with p Cons.IH [of "w\<lparr>stdout := stdout w @ [ResultRow (ljust 20 s) ms (np_mean r)]\<rparr>"]
    show ?thesis by simp
  qed
qed

lemma display_results_file:
  "data_file (snd (display_results subjects students marks w)) = data_file w"
  by (cases "iter_array marks") (simp_all add: display_results_def Let_def display_rows_file)

lemma plot_subjects_file:
  "data_file (snd (plot_subjects i subjects years marks w)) = data_file w"
proof (induction subjects arbitrary: i w)
  case Nil
  then show ?case by simp
next
  case (Cons subject rest)
  show ?case
  proof (cases "if np_size marks \<noteq> 0 then column marks i else Inr \<lparr>shape = [0], data = []\<rparr>")
    case (Inl e)
    then show ?thesis by simp
  next
    case (Inr c)
    with Cons.IH [of "Suc i" "plt [Plot years c subject] w"] show ?thesis
      by (simp add: plt_def)
  qed
qed

lemma analyze_trend_file:
  "data_file (snd (analyze_trend subjects students marks w)) = data_file w"
proof (cases "length students < 2")
  case True
  then show ?thesis by (simp add: analyze_trend_def)
next
  case False
  obtain r w2 where p: "plot_subjects 0 subjects [0..<length students] marks (plt [Figure] w) = (r, w2)"
    by (cases "plot_subjects 0 subjects [0..<length students] marks (plt [Figure] w)")
  with plot_subjects_file [of 0 subjects "[0..<length students]" marks "plt [Figure] w"]
  have "data_file w2 = data_file w" by (simp add: plt_def)
  with False p show ?thesis
    by (cases r) (simp_all add: analyze_trend_def Let_def plt_def)
qed

lemma subject_comparison_file:
  "data_file (snd (subject_comparison subjects students marks w)) = data_file w"
  by (cases "np_mean_axis0 marks") (simp_all add: subject_comparison_def plt_def)

lemma menu_round_cases:
  assumes "menu_round int_of subjects students marks w = (Inr (Some (students', marks')), w')"
  shows "(students' = students \<and> marks' = marks \<and> data_file w' = data_file w) \<or>
         (\<exists>w1. add_record int_of subjects students marks w1 = (Inr (students', marks'), w'))"
proof -
  let ?w0 = "print ''5. Exit''
                (print ''4. Subject comparison''
                  (print ''3. Analyze trend''
                    (print ''2. Display results''
                      (print ''1. Add new student record''
                        (print_colored (CHR 0x0A # ''--- Student Performance Analysis ---'')
                           HEADER w)))))"
  have f0: "data_file ?w0 = data_file w" by (simp add: print_def)
  obtain r1 w1 where i: "input ''Enter your choice (1-5): '' ?w0 = (r1, w1)"
    by (cases "input ''Enter your choice (1-5): '' ?w0")
  from input_frame [OF i] f0 have f1: "data_file w1 = data_file w" by simp
  from assms i obtain choice where c: "r1 = Inr choice"
    by (cases r1) (auto simp: menu_round_def Let_def)
  consider "choice = ''1''" | "choice = ''2''" | "choice = ''3''" | "choice = ''4''"
    | "choice = ''5''"
    | "choice \<noteq> ''1''" "choice \<noteq> ''2''" "choice \<noteq> ''3''" "choice \<noteq> ''4''" "choice \<noteq> ''5''"
    by blast
  then show ?thesis
  proof cases
    case 1
    with assms i c have "add_record int_of subjects students marks w1 = (Inr (students', marks'), w')"
      by (auto simp: menu_round_def Let_def split: prod.splits sum.splits)
    then show ?thesis by blast
  next
    case 2
    with assms i c display_results_file [of subjects students marks w1] f1 show ?thesis
      by (auto simp: menu_round_def Let_def split: prod.splits sum.splits)
  next
    case 3
    with assms i c analyze_trend_file [of subjects students marks w1] f1 show ?thesis
      by (auto simp: menu_round_def Let_def split: prod.splits sum.splits)
  next
    case 4
    with assms i c subject_comparison_file [of subjects students marks w1] f1 show ?thesis
      by (auto simp: menu_round_def Let_def split: prod.splits sum.splits)
  next
    case 5
    with assms i c show ?thesis
      by (auto simp: menu_round_def Let_def)
  next
    case 6
    with assms i c f1 show ?thesis
      by (auto simp: menu_round_def Let_def)
  qed
qed

lemma valid_triple_size:
  assumes "valid_triple subjects students marks" "subjects \<noteq> []"
  shows "np_size marks = 0 \<longleftrightarrow> students = []"
  using assms by (auto simp: valid_triple_def table_inv_def np_size_def)

lemma add_record_valid:
  assumes "valid_triple subjects students marks" "subjects \<noteq> []"
    and "add_record int_of subjects students marks w = (Inr (students', marks'), w')"
  shows "valid_triple subjects students' marks' \<and>
         data_file w' = Text [Json (Object \<lparr>doc_subjects = Some subjects,
                                             doc_students = Some students',
                                             doc_marks = Some (tolist marks')\<rparr>)]"
proof -
  from add_record_returns [OF assms(3)] obtain name new wa wb where
    rm: "read_marks int_of subjects [] wa = (Inr new, wb)" and
    ar: "append_row marks new = Inr marks'" and
    st: "students' = students @ [name]" and
    fl: "data_file w' = Text [Json (Object \<lparr>doc_subjects = Some subjects,
                                             doc_students = Some students',
                                             doc_marks = Some (tolist marks')\<rparr>)]"
    by blast
  from read_marks_result [OF rm] have n: "length new = length subjects" "list_all in_range new"
    by auto
  from assms(1) have wf: "wf_array marks" and rg: "list_all in_range (data marks)"
    and sh: "shape marks = (if students = [] then [0] else [length students, length subjects])"
    by (simp_all add: valid_triple_def table_inv_def)
  have "marks' = \<lparr>shape = [Suc (length students), length subjects], data = data marks @ new\<rparr>"
  proof (cases "students = []")
    case True
    with sh wf have "np_size marks = 0" "data marks = []"
      by (simp_all add: np_size_def wf_array_def)
    with ar n True show ?thesis by (simp add: append_row_empty)
  next
    case False
    with sh assms(2) have "np_size marks \<noteq> 0" "shape marks = [length students, length new]"
      using n by (simp_all add: np_size_def)
    from append_row_table [OF this(2,1)] ar n show ?thesis by simp
  qed
  with wf sh n rg st have "valid_triple subjects students' marks'"
    by (auto simp: valid_triple_def table_inv_def wf_array_def)
  with fl show ?thesis by simp
qed

lemma own_file_saved:
  assumes "valid_triple default_subjects students marks"
  shows "own_file (Text [Json (Object \<lparr>doc_subjects = Some default_subjects,
                                         doc_students = Some students,
                                         doc_marks = Some (tolist marks)\<rparr>)])"
proof -
  from assms have "wf_array marks" "inner_nonzero (shape marks)"
    by (auto simp: valid_triple_def table_inv_def)
  from np_array_tolist [OF this] assms show ?thesis
    by (simp add: own_file_def json_load_def)
qed

lemma valid_default_empty: "valid_triple default_subjects [] \<lparr>shape = [0], data = []\<rparr>"
  by (simp add: valid_triple_def table_inv_def wf_array_def)

lemma initialize_data_own:
  assumes "own_file (data_file w0)"
    and "initialize_data w0 = (Inr (subjects, students, marks), w)"
  shows "subjects = default_subjects \<and> valid_triple subjects students marks \<and>
         own_file (data_file w)"
proof (cases "json_load (data_file w0)")
  case (Inl e)
  with assms(1) have fb: "json_load (data_file w0) = Inl FileNotFoundError \<or>
                          json_load (data_file w0) = Inl JSONDecodeError"
    by (auto simp: own_file_def)
  show ?thesis
  proof (cases "storage w0 = Writable")
    case True
    from load_default_writable [OF fb True] assms(2)
    have "subjects = default_subjects" "students = []" "marks = \<lparr>shape = [0], data = []\<rparr>"
      "data_file w = Text [Json (Object \<lparr>doc_subjects = Some default_subjects,
                                          doc_students = Some [],
                                          doc_marks = Some (tolist \<lparr>shape = [0], data = []\<rparr>)\<rparr>)]"
      by (auto simp: default_subjects_def tolist_def)
    with valid_default_empty own_file_saved [OF valid_default_empty] show ?thesis by simp
  next
    case False
    from load_default_refused [OF fb False] assms(2) show ?thesis by simp
  qed
next
  case (Inr v)
  with assms show ?thesis
    by (auto simp: own_file_def initialize_data_def
             split: json.splits option.splits sum.splits)
qed

lemma reaches_invariant:
  assumes "own_file (data_file w0)" and "reaches int_of w0 subjects students marks w"
  shows "subjects = default_subjects \<and> valid_triple subjects students marks \<and>
         own_file (data_file w)"
  using assms(2)
proof (induction rule: reaches.induct)
  case (start subjects students marks w)
  with initialize_data_own [OF assms(1)] show ?case by blast
next
  case (round subjects students marks w students' marks' w')
  then have s: "subjects = default_subjects" and v: "valid_triple subjects students marks"
    and o: "own_file (data_file w)"
    by blast+
  from s have ne: "subjects \<noteq> []" by (simp add: default_subjects_def)
  from menu_round_cases [OF round.hyps(2)] show ?case
  proof
    assume "students' = students \<and> marks' = marks \<and> data_file w' = data_file w"
    with s v o show ?thesis by simp
  next
    assume "\<exists>w1. add_record int_of subjects students marks w1 = (Inr (students', marks'), w')"
    then obtain w1 where "add_record int_of subjects students marks w1 = (Inr (students', marks'), w')"
      ..
    from add_record_valid [OF v ne this] s own_file_saved [of students' marks']
    show ?thesis by simp
  qed
qed

lemma append_row_branch:
  "append_row marks row =
     (if np_size marks = 0 then np_array (Arr [Arr (map Num row)]) else vstack marks row)"
  by (simp add: append_row_def)


lemma menu_round_add_accept:
  assumes "stdin w = ''1'' # name # lines @ rest" "map int_of lines = map Some row"
    "length row = length subjects" "list_all in_range row" "storage w = Writable"
    "append_row marks row = Inr marks'"
  shows "\<exists>w'. menu_round int_of subjects students marks w =
                (Inr (Some (students @ [name], marks')), w') \<and>
              stdin w' = rest \<and> storage w' = Writable"
proof -
  let ?w0 = "print ''5. Exit''
                (print ''4. Subject comparison''
                  (print ''3. Analyze trend''
                    (print ''2. Display results''
                      (print ''1. Add new student record''
                        (print_colored (CHR 0x0A # ''--- Student Performance Analysis ---'')
                           HEADER w)))))"
  let ?w1 = "?w0\<lparr>stdout := stdout ?w0 @ [Prompt ''Enter your choice (1-5): ''],
                stdin := name # lines @ rest\<rparr>"
  from assms(1) have i: "input ''Enter your choice (1-5): '' ?w0 = (Inr ''1'', ?w1)"
    by (simp add: input_def print_def)
  have s1: "stdin ?w1 = name # lines @ rest" by simp
  from assms(5) have t1: "storage ?w1 = Writable" by (simp add: print_def)
  from add_record_accept [OF s1 assms(2,3,4) t1 assms(6), of students] obtain w' where
    "add_record int_of subjects students marks ?w1 = (Inr (students @ [name], marks'), w')"
    "stdin w' = rest" "storage w' = Writable"
    by blast
  with i show ?thesis by (simp add: menu_round_def Let_def)
qed



end
